theory Spec2Isabelle
  imports Complex_Main "HOL-Library.Monad_Syntax"
begin

section \<open>GridWorld set-up\<close>

text \<open>
  The notebook \<^verbatim>\<open>01_gridworld_dynamic_programming.ipynb\<close> fixes its environment in
  module-level names. They are kept here under the same names. Python floats are read as
  real numbers: \<^verbatim>\<open>.1\<close> is \<open>1/10\<close>, \<^verbatim>\<open>-0.02\<close> is \<open>- 2/100\<close>.
  A raised exception is the value \<open>None\<close>.
\<close>

definition grid_size :: "nat \<times> nat" where
  "grid_size = (3, 4)"

definition blocked_cell :: "int \<times> int" where
  "blocked_cell = (1, 1)"

definition baseline_reward :: real where
  "baseline_reward = - 2 / 100"

definition absorbing_cells :: "((int \<times> int) \<times> real) list" where
  "absorbing_cells = [((0, 3), 1), ((1, 3), - 1)]"

definition actions :: "string list" where
  "actions = [''L'', ''U'', ''R'', ''D'']"

definition num_actions :: nat where
  "num_actions = length actions"

definition probs :: "real list" where
  "probs = [1 / 10, 8 / 10, 1 / 10, 0]"

text \<open>\<^verbatim>\<open>xs[i]\<close> for an index that \<^verbatim>\<open>range\<close> produced: IndexError past the end.\<close>

definition py_index :: "'a list \<Rightarrow> nat \<Rightarrow> 'a option" where
  "py_index xs i = (if i < length xs then Some (xs ! i) else None)"

text \<open>
  \<^verbatim>\<open>np.ravel_multi_index\<close> and \<^verbatim>\<open>np.unravel_index\<close> on \<^verbatim>\<open>grid_size\<close>: row-major, and a
  ValueError for a coordinate or an index outside the grid.
\<close>

definition to_1d :: "int \<times> int \<Rightarrow> nat option" where
  "to_1d x = (case x of (r, c) \<Rightarrow>
     if 0 \<le> r \<and> r < int (fst grid_size) \<and> 0 \<le> c \<and> c < int (snd grid_size)
     then Some (nat (r * int (snd grid_size) + c)) else None)"

definition to_2d :: "nat \<Rightarrow> (int \<times> int) option" where
  "to_2d x = (if x < fst grid_size * snd grid_size
     then Some (int (x div snd grid_size), int (x mod snd grid_size)) else None)"

definition num_states :: nat where
  "num_states = fst grid_size * snd grid_size"

definition cells :: "(int \<times> int) list" where
  "cells = List.product (map int [0..<fst grid_size]) (map int [0..<snd grid_size])"

definition states :: "nat list" where
  "states = [0..<length cells]"

definition absorbing_states :: "(nat \<times> real) list" where
  "absorbing_states = map (\<lambda>(s, r). (the (to_1d s), r)) absorbing_cells"

definition blocked_state :: nat where
  "blocked_state = the (to_1d blocked_cell)"

definition state_rewards :: "real list" where
  "state_rewards =
     fold (\<lambda>(state, reward) sr. sr[state := reward]) absorbing_states
       ((replicate num_states baseline_reward)[blocked_state := 0])"

text \<open>\<^verbatim>\<open>dict(pairs)\<close>: a later pair with the same key replaces an earlier one.\<close>

definition dict_of :: "('k \<times> 'v) list \<Rightarrow> ('k \<rightharpoonup> 'v)" where
  "dict_of kvs = fold (\<lambda>(k, v) m. m(k \<mapsto> v)) kvs Map.empty"

text \<open>
  \<^verbatim>\<open>for i, action in enumerate(actions):\<close>
  \<^verbatim>\<open>    probs_ = dict(zip([actions[j % 4] for j in range(i, num_actions + i)], probs))\<close>
  \<^verbatim>\<open>    action_outcomes[actions[(i + 1) % 4]] = probs_\<close>
\<close>

definition action_outcomes :: "string \<rightharpoonup> (string \<rightharpoonup> real)" where
  "action_outcomes =
     fold (\<lambda>i ao. ao(actions ! ((i + 1) mod 4) \<mapsto>
             dict_of (zip (map (\<lambda>j. actions ! (j mod 4)) [i..<num_actions + i]) probs)))
       [0..<length actions] Map.empty"

section \<open>Transition and reward tensors\<close>

text \<open>
  The move of \<^verbatim>\<open>get_new_cell\<close>; the \<^verbatim>\<open>if/elif\<close> chain is kept in its order. The chain has
  no \<^verbatim>\<open>else\<close>: a label other than the four would fall off the end, which the fixed list
  \<^verbatim>\<open>actions\<close> excludes; that case is \<open>None\<close> here.
\<close>

definition get_new_cell :: "nat \<Rightarrow> nat \<Rightarrow> (int \<times> int) option" where
  "get_new_cell state move = do {
     cell \<leftarrow> to_2d state;
     m \<leftarrow> py_index actions move;
     if m = ''U'' then Some (fst cell - 1, snd cell)
     else if m = ''D'' then Some (fst cell + 1, snd cell)
     else if m = ''R'' then Some (fst cell, snd cell + 1)
     else if m = ''L'' then Some (fst cell, snd cell - 1)
     else None }"

type_synonym tensor = "real list list list"

definition np_zeros3 :: "nat \<Rightarrow> nat \<Rightarrow> nat \<Rightarrow> tensor" where
  "np_zeros3 a b c = replicate a (replicate b (replicate c 0))"

text \<open>Reading and writing one entry of a three-index array; IndexError out of range.\<close>

definition tget :: "tensor \<Rightarrow> nat \<Rightarrow> nat \<Rightarrow> nat \<Rightarrow> real option" where
  "tget T a s s' =
     (if a < length T \<and> s < length (T ! a) \<and> s' < length (T ! a ! s)
      then Some (T ! a ! s ! s') else None)"

definition tensor_upd :: "tensor \<Rightarrow> nat \<Rightarrow> nat \<Rightarrow> nat \<Rightarrow> real \<Rightarrow> tensor" where
  "tensor_upd T a s s' v = T[a := (T ! a)[s := (T ! a ! s)[s' := v]]]"

definition tset :: "tensor \<Rightarrow> nat \<Rightarrow> nat \<Rightarrow> nat \<Rightarrow> real \<Rightarrow> tensor option" where
  "tset T a s s' v =
     (if a < length T \<and> s < length (T ! a) \<and> s' < length (T ! a ! s)
      then Some (tensor_upd T a s s' v) else None)"

text \<open>\<^verbatim>\<open>action_outcomes[actions[action]][actions[outcome]]\<close>; KeyError is \<open>None\<close>.\<close>

definition outcome_prob :: "nat \<Rightarrow> nat \<Rightarrow> real option" where
  "outcome_prob action outcome = do {
     a \<leftarrow> py_index actions action;
     row \<leftarrow> action_outcomes a;
     oc \<leftarrow> py_index actions outcome;
     row oc }"

text \<open>
  \<^verbatim>\<open>update_transitions_and_rewards\<close> writes the module-level arrays \<^verbatim>\<open>transitions\<close> and
  \<^verbatim>\<open>rewards\<close>; here the pair of both is passed in and returned.
\<close>

definition update_transitions_and_rewards ::
  "tensor \<times> tensor \<Rightarrow> nat \<Rightarrow> nat \<Rightarrow> nat \<Rightarrow> (tensor \<times> tensor) option" where
  "update_transitions_and_rewards TR state action outcome = (case TR of (T, R) \<Rightarrow>
     if state \<in> set (map fst absorbing_states) \<or> state = blocked_state then do {
       T' \<leftarrow> tset T action state state 1;
       Some (T', R) }
     else do {
       new_cell \<leftarrow> get_new_cell state outcome;
       p \<leftarrow> outcome_prob action outcome;
       if new_cell \<notin> set cells \<or> new_cell = blocked_cell then do {
         old \<leftarrow> tget T action state state;
         T' \<leftarrow> tset T action state state (old + p);
         R' \<leftarrow> tset R action state state baseline_reward;
         Some (T', R') }
       else do {
         new_state \<leftarrow> to_1d new_cell;
         T' \<leftarrow> tset T action state new_state p;
         r \<leftarrow> py_index state_rewards new_state;
         R' \<leftarrow> tset R action state new_state r;
         Some (T', R') } })"

text \<open>
  \<^verbatim>\<open>for action, outcome, state in product(actions_, actions_, states)\<close>: the action is the
  outer loop, the state the inner one. The list \<^verbatim>\<open>actions_\<close> is \<open>actions_idx\<close> here.
\<close>

definition actions_idx :: "nat list" where
  "actions_idx = [0..<num_actions]"

definition build_from :: "tensor \<times> tensor \<Rightarrow> (nat \<times> nat \<times> nat) list \<Rightarrow> (tensor \<times> tensor) option" where
  "build_from TR triples =
     fold (\<lambda>(action, outcome, state) acc. acc \<bind> (\<lambda>tr. update_transitions_and_rewards tr state action outcome))
       triples (Some TR)"

definition build :: "(tensor \<times> tensor) option" where
  "build = build_from (np_zeros3 num_actions num_states num_states, np_zeros3 num_actions num_states num_states)
             (List.product actions_idx (List.product actions_idx states))"

definition transitions :: tensor where
  "transitions = fst (the build)"

definition rewards :: tensor where
  "rewards = snd (the build)"

section \<open>Arrays held by reference\<close>

text \<open>
  The value function is a one-dimensional array that the loops write in place and that
  \<^verbatim>\<open>np.copy\<close> / \<^verbatim>\<open>.copy()\<close> duplicate. The store is the list of all such arrays;
  a name is bound to a position in it, and a copy is a new position.
\<close>

type_synonym ndarray = "real list"

type_synonym store = "ndarray list"

definition np_copy :: "store \<Rightarrow> nat \<Rightarrow> store \<times> nat" where
  "np_copy h a = (h @ [h ! a], length h)"

definition setitem :: "store \<Rightarrow> nat \<Rightarrow> nat \<Rightarrow> real \<Rightarrow> store" where
  "setitem h a i x = h[a := (h ! a)[i := x]]"

text \<open>
  The solver loops index arrays that were all created with \<^verbatim>\<open>num_states\<close> entries and
  tensors of shape \<^verbatim>\<open>(num_actions, num_states, num_states)\<close>; the theorems about them
  state these shapes as hypotheses, and the indexing below is unchecked.
\<close>

definition shape3 :: "tensor \<Rightarrow> nat \<Rightarrow> nat \<Rightarrow> nat \<Rightarrow> bool" where
  "shape3 T a b c \<longleftrightarrow>
     length T = a \<and> list_all (\<lambda>M. length M = b \<and> list_all (\<lambda>row. length row = c) M) T"

definition skip_states :: "nat list" where
  "skip_states = map fst absorbing_states @ [blocked_state]"

definition states_to_update :: "nat list" where
  "states_to_update = filter (\<lambda>s. s \<notin> set skip_states) states"

text \<open>\<^verbatim>\<open>V = np.random.rand(num_states)\<close>, \<^verbatim>\<open>V[skip_states] = 0\<close>; the draw is \<open>rnd\<close>.\<close>

definition init_V :: "ndarray \<Rightarrow> ndarray" where
  "init_V rnd = fold (\<lambda>s v. v[s := 0]) skip_states rnd"

record solver =
  heap :: store
  V :: nat
  converged :: bool
  iterations :: nat

record pi_solver = solver +
  pi_arr :: "nat list"

text \<open>The array that the name \<^verbatim>\<open>V\<close> is bound to.\<close>

definition value_of :: "'a solver_scheme \<Rightarrow> ndarray" where
  "value_of w = heap w ! V w"

section \<open>Arithmetic of the solver loops\<close>

text \<open>
  The arrays of the solver loops hold float64 numbers, each of which is a real number.
  numpy's operations on them round their results, and how they round (and in which order
  \<^verbatim>\<open>np.sum\<close> and \<^verbatim>\<open>np.dot\<close> add) is not part of the notebook. The loops therefore take the
  operations as a parameter: \<open>fadd\<close>, \<open>fsub\<close> and \<open>fmul\<close> for \<^verbatim>\<open>+\<close>, \<^verbatim>\<open>-\<close> and \<^verbatim>\<open>*\<close> on
  two numbers, \<open>fsum\<close> for \<^verbatim>\<open>np.sum\<close> of a vector and \<open>fdot\<close> for \<^verbatim>\<open>np.dot\<close> of two
  vectors. Every \<^verbatim>\<open>np.sum\<close> of the loops adds the \<^verbatim>\<open>num_states\<close> numbers of one row along
  the last axis, so one function stands for all of them. Comparisons, \<^verbatim>\<open>np.fabs\<close>,
  \<^verbatim>\<open>np.max\<close> and \<^verbatim>\<open>np.argmax\<close> do not round. A theorem stated for an arbitrary
  arithmetic \<open>A\<close> holds however the operations round; \<open>exact\<close> is the arithmetic that
  never rounds, used where the loops are run on concrete numbers.
\<close>

record arith =
  fadd :: "real \<Rightarrow> real \<Rightarrow> real"
  fsub :: "real \<Rightarrow> real \<Rightarrow> real"
  fmul :: "real \<Rightarrow> real \<Rightarrow> real"
  fsum :: "real list \<Rightarrow> real"
  fdot :: "real list \<Rightarrow> real list \<Rightarrow> real"

definition exact :: arith where
  "exact = \<lparr>fadd = (+), fsub = (-), fmul = (*), fsum = sum_list,
             fdot = (\<lambda>xs ys. sum_list (map2 (*) xs ys))\<rparr>"

section \<open>Value Iteration\<close>

text \<open>
  \<^verbatim>\<open>q_sa = np.sum(transitions[:, state] * (rewards[:, state] + gamma * V), axis=1)\<close>
\<close>

definition q_sa :: "arith \<Rightarrow> tensor \<Rightarrow> tensor \<Rightarrow> real \<Rightarrow> ndarray \<Rightarrow> nat \<Rightarrow> real list" where
  "q_sa A T R gamma v state =
     map2 (\<lambda>t r. fsum A (map2 (fmul A) t (map2 (fadd A) r (map (fmul A gamma) v))))
       (map (\<lambda>Ta. Ta ! state) T) (map (\<lambda>Ra. Ra ! state) R)"

definition np_max :: "real list \<Rightarrow> real" where
  "np_max xs = fold max (tl xs) (hd xs)"

definition vi_update :: "arith \<Rightarrow> tensor \<Rightarrow> tensor \<Rightarrow> real \<Rightarrow> solver \<Rightarrow> nat \<Rightarrow> solver" where
  "vi_update A T R gamma w state =
     w\<lparr>heap := setitem (heap w) (V w) state (np_max (q_sa A T R gamma (heap w ! V w) state))\<rparr>"

definition vi_sweep :: "arith \<Rightarrow> tensor \<Rightarrow> tensor \<Rightarrow> real \<Rightarrow> solver \<Rightarrow> solver" where
  "vi_sweep A T R gamma w = fold (\<lambda>state w'. vi_update A T R gamma w' state) states_to_update w"

text \<open>\<^verbatim>\<open>np.sum(np.fabs(V - V_))\<close>\<close>

definition l1_change :: "arith \<Rightarrow> ndarray \<Rightarrow> ndarray \<Rightarrow> real" where
  "l1_change A v v' = fsum A (map2 (\<lambda>x y. \<bar>fsub A x y\<bar>) v v')"

text \<open>
  One pass of the \<^verbatim>\<open>while not converged\<close> body. \<^verbatim>\<open>V_\<close> is bound afresh at the start of
  every pass and read only inside it. The progress \<^verbatim>\<open>print\<close> every 1000 passes changes
  no variable and is left out.
\<close>

definition vi_body :: "arith \<Rightarrow> tensor \<Rightarrow> tensor \<Rightarrow> real \<Rightarrow> real \<Rightarrow> solver \<Rightarrow> solver" where
  "vi_body A T R gamma epsilon w =
     (case np_copy (heap w) (V w) of (h, V') \<Rightarrow>
        let w1 = vi_sweep A T R gamma (w\<lparr>heap := h\<rparr>);
            w2 = (if l1_change A (heap w1 ! V w1) (heap w1 ! V') < epsilon
                  then w1\<lparr>converged := True\<rparr> else w1)
        in w2\<lparr>iterations := iterations w2 + 1\<rparr>)"

partial_function (option) vi_loop ::
  "arith \<Rightarrow> tensor \<Rightarrow> tensor \<Rightarrow> real \<Rightarrow> real \<Rightarrow> solver \<Rightarrow> solver option" where
  "vi_loop A T R gamma epsilon w =
     (if \<not> converged w then vi_loop A T R gamma epsilon (vi_body A T R gamma epsilon w) else Some w)"

definition vi_start :: "ndarray \<Rightarrow> solver" where
  "vi_start rnd = \<lparr>heap = [init_V rnd], V = 0, converged = False, iterations = 0\<rparr>"


section \<open>Policy Iteration\<close>

text \<open>\<^verbatim>\<open>np.argmax\<close> of a non-empty vector: the position of the first maximum.\<close>

fun argmax_scan :: "real list \<Rightarrow> nat \<Rightarrow> nat \<Rightarrow> real \<Rightarrow> nat" where
  "argmax_scan [] i best b = best"
| "argmax_scan (x # xs) i best b =
     (if b < x then argmax_scan xs (Suc i) i x else argmax_scan xs (Suc i) best b)"

definition np_argmax :: "real list \<Rightarrow> nat" where
  "np_argmax xs = argmax_scan (tl xs) 1 0 (hd xs)"

text \<open>\<^verbatim>\<open>np.argmax(M, 0)\<close> for a matrix given by its rows: one position per column.\<close>

definition np_argmax0 :: "real list list \<Rightarrow> nat list" where
  "np_argmax0 M = map (\<lambda>s. np_argmax (map (\<lambda>Ma. Ma ! s) M)) [0..<length (hd M)]"

text \<open>\<^verbatim>\<open>np.sum(transitions * value, 2)\<close>\<close>

definition expected_value :: "arith \<Rightarrow> tensor \<Rightarrow> ndarray \<Rightarrow> real list list" where
  "expected_value A T v = map (map (\<lambda>row. fsum A (map2 (fmul A) row v))) T"

text \<open>
  \<^verbatim>\<open>policy_improvement(value, transitions)\<close> writes into the array it is given: the store
  is returned with the result.
\<close>

definition policy_improvement :: "arith \<Rightarrow> store \<Rightarrow> nat \<Rightarrow> tensor \<Rightarrow> store \<times> nat list" where
  "policy_improvement A h val T =
     (let h' = fold (\<lambda>(state, reward) h1. setitem h1 val state reward) absorbing_states h
      in (h', np_argmax0 (expected_value A T (h' ! val))))"

text \<open>
  The body of \<^verbatim>\<open>for state in states_to_update\<close>, in two parts:
  \<^verbatim>\<open>action = policy[state]\<close> and
  \<^verbatim>\<open>V[state] = np.dot(transitions[action, state], (rewards[action, state] + gamma * V))\<close>,
  then \<^verbatim>\<open>pi = policy_improvement(V.copy(), transitions)\<close>, which is inside the \<^verbatim>\<open>for\<close>.
  The name \<^verbatim>\<open>policy\<close> is the module-level array that the Value Iteration section left
  behind; the loop never assigns it, so it is a parameter.
\<close>

definition pi_evaluate ::
  "arith \<Rightarrow> tensor \<Rightarrow> tensor \<Rightarrow> real \<Rightarrow> nat list \<Rightarrow> pi_solver \<Rightarrow> nat \<Rightarrow> pi_solver" where
  "pi_evaluate A T R gamma policy w state =
     (let action = policy ! state
      in w\<lparr>heap := setitem (heap w) (V w) state
             (fdot A (T ! action ! state)
                (map2 (fadd A) (R ! action ! state) (map (fmul A gamma) (heap w ! V w))))\<rparr>)"

definition pi_improve :: "arith \<Rightarrow> tensor \<Rightarrow> pi_solver \<Rightarrow> pi_solver" where
  "pi_improve A T w =
     (case np_copy (heap w) (V w) of (h, c) \<Rightarrow>
        case policy_improvement A h c T of (h', p) \<Rightarrow> w\<lparr>heap := h', pi_arr := p\<rparr>)"

definition pi_step ::
  "arith \<Rightarrow> tensor \<Rightarrow> tensor \<Rightarrow> real \<Rightarrow> nat list \<Rightarrow> pi_solver \<Rightarrow> nat \<Rightarrow> pi_solver" where
  "pi_step A T R gamma policy w state = pi_improve A T (pi_evaluate A T R gamma policy w state)"



definition pi_start :: "ndarray \<Rightarrow> nat list \<Rightarrow> pi_solver" where
  "pi_start rnd choice =
     \<lparr>heap = [init_V rnd], V = 0, converged = False, iterations = 0, pi_arr = choice\<rparr>"


section \<open>The loops as functions on the arrays alone\<close>

text \<open>
  What one \<^verbatim>\<open>for state in ...\<close> pass of Value Iteration does to the array behind
  \<^verbatim>\<open>V\<close>, without the store around it; the lemmas below relate it to \<open>vi_sweep\<close>.
\<close>

definition bellman_sweep ::
  "arith \<Rightarrow> tensor \<Rightarrow> tensor \<Rightarrow> real \<Rightarrow> nat list \<Rightarrow> ndarray \<Rightarrow> ndarray" where
  "bellman_sweep A T R gamma sts v = fold (\<lambda>s u. u[s := np_max (q_sa A T R gamma u s)]) sts v"

text \<open>
  The same for Policy Iteration: one \<^verbatim>\<open>for\<close> pass writes the array behind \<^verbatim>\<open>V\<close> with
  the action that \<^verbatim>\<open>policy\<close> names, and each call of \<^verbatim>\<open>policy_improvement\<close> returns the
  \<^verbatim>\<open>argmax\<close> over the array with the terminal rewards filled in.
\<close>

definition policy_sweep ::
  "arith \<Rightarrow> tensor \<Rightarrow> tensor \<Rightarrow> real \<Rightarrow> nat list \<Rightarrow> nat list \<Rightarrow> ndarray \<Rightarrow> ndarray" where
  "policy_sweep A T R gamma policy sts v =
     fold (\<lambda>s u. u[s := fdot A (T ! (policy ! s) ! s)
                         (map2 (fadd A) (R ! (policy ! s) ! s) (map (fmul A gamma) u))]) sts v"

definition terminal_filled :: "ndarray \<Rightarrow> ndarray" where
  "terminal_filled v = fold (\<lambda>(state, reward) u. u[state := reward]) absorbing_states v"

definition greedy :: "arith \<Rightarrow> tensor \<Rightarrow> ndarray \<Rightarrow> nat list" where
  "greedy A T v = np_argmax0 (expected_value A T (terminal_filled v))"


section \<open>Evaluating the set-up\<close>

lemma upt4: "[0..<4] = [0, 1, 2, 3]" "[1..<5] = [1,2,3,4]" "[2..<6] = [2,3,4,5]" "[3..<7] = [3,4,5,6]"
  by (simp_all add: upt_rec)

lemma num_eval: "num_actions = 4" "num_states = 12"
  by (simp_all add: num_actions_def actions_def num_states_def grid_size_def)

lemma action_cases: "a < num_actions \<Longrightarrow> a = 0 \<or> a = 1 \<or> a = 2 \<or> a = 3"
  unfolding num_eval by arith

lemma action_outcomes_eval:
  "action_outcomes =
     [''U'' \<mapsto> [''L'' \<mapsto> 1 / 10, ''U'' \<mapsto> 8 / 10, ''R'' \<mapsto> 1 / 10, ''D'' \<mapsto> 0],
      ''R'' \<mapsto> [''U'' \<mapsto> 1 / 10, ''R'' \<mapsto> 8 / 10, ''D'' \<mapsto> 1 / 10, ''L'' \<mapsto> 0],
      ''D'' \<mapsto> [''R'' \<mapsto> 1 / 10, ''D'' \<mapsto> 8 / 10, ''L'' \<mapsto> 1 / 10, ''U'' \<mapsto> 0],
      ''L'' \<mapsto> [''D'' \<mapsto> 1 / 10, ''L'' \<mapsto> 8 / 10, ''U'' \<mapsto> 1 / 10, ''R'' \<mapsto> 0]]"
  by (simp add: action_outcomes_def actions_def num_actions_def probs_def dict_of_def upt4)

lemma set_cells: "set cells = {(r, c). 0 \<le> r \<and> r < 3 \<and> 0 \<le> c \<and> c < 4}"
  by (auto simp add: cells_def grid_size_def image_int_atLeastLessThan)

lemma skip_eval: "absorbing_states = [(3, 1), (7, - 1)]" "blocked_state = 5"
  by (simp_all add: absorbing_states_def absorbing_cells_def blocked_state_def blocked_cell_def to_1d_def grid_size_def)

lemma state_rewards_length: "length state_rewards = num_states"
proof -
  have "length (fold (\<lambda>(state, reward) sr. sr[state := reward]) xs ys) = length ys" for xs :: "(nat \<times> real) list" and ys
    by (induction xs arbitrary: ys) (auto split: prod.splits)
  then show ?thesis by (simp add: state_rewards_def)
qed

lemma outcome_prob_total:
  assumes "action < num_actions" "outcome < num_actions"
  shows "outcome_prob action outcome \<noteq> None"
  using action_cases [OF assms(1)] action_cases [OF assms(2)]
  by (elim disjE) (simp_all add: outcome_prob_def py_index_def actions_def action_outcomes_eval)

lemma shape3_nth:
  assumes "shape3 T A S S'" "a < A" "s < S"
  shows "a < length T" "s < length (T ! a)" "length (T ! a ! s) = S'"
  using assms by (auto simp add: shape3_def list_all_length)

lemma tset_ok:
  assumes "shape3 T A S S'" "a < A" "s < S" "s' < S'"
  shows "tset T a s s' v = Some (tensor_upd T a s s' v)"
  using shape3_nth [OF assms(1-3)] assms(4) by (simp add: tset_def)

lemma tget_ok:
  assumes "shape3 T A S S'" "a < A" "s < S" "s' < S'"
  shows "tget T a s s' = Some (T ! a ! s ! s')"
  using shape3_nth [OF assms(1-3)] assms(4) by (simp add: tget_def)

lemma tensor_upd_same: "tensor_upd T a s s' (T ! a ! s ! s') = T"
  by (simp add: tensor_upd_def)

lemma get_new_cell_total:
  assumes "state < num_states" "move < num_actions"
  shows "get_new_cell state move \<noteq> None"
  using action_cases [OF assms(2)] assms(1)
  by (elim disjE) (simp_all add: get_new_cell_def to_2d_def py_index_def actions_def grid_size_def num_eval)

lemma to_1d_cells:
  assumes "c \<in> set cells"
  shows "\<exists>d<num_states. to_1d c = Some d"
  using assms by (auto simp add: set_cells to_1d_def grid_size_def num_eval split: prod.splits)

text \<open>
  Claim C7. The mapping \<^verbatim>\<open>action_outcomes\<close> has exactly the four actions as keys, and
  so has each of its rows; for the action with index \<open>i\<close> the intended direction has
  probability 0.8, the two neighbours of \<open>i\<close> in the cyclic order L, U, R, D have 0.1
  each, and the opposite direction has 0.
\<close>

theorem action_outcomes_noise:
  "length actions = 4 \<and> distinct actions \<and> dom action_outcomes = set actions \<and>
   (\<forall>row\<in>ran action_outcomes. dom row = set actions) \<and>
   (\<forall>i<4. outcome_prob i i = Some (8 / 10) \<and>
           outcome_prob i ((i + 1) mod 4) = Some (1 / 10) \<and>
           outcome_prob i ((i + 3) mod 4) = Some (1 / 10) \<and>
           outcome_prob i ((i + 2) mod 4) = Some 0)"
proof -
  have shape: "length actions = 4 \<and> distinct actions"
    by (simp add: actions_def)
  have keys: "dom action_outcomes = set actions"
    by (auto simp add: action_outcomes_eval actions_def)
  have rows: "dom row = set actions" if "row \<in> ran action_outcomes" for row
  proof -
    from that obtain a where "action_outcomes a = Some row"
      by (auto simp add: ran_def)
    then have "row = [''L'' \<mapsto> 1 / 10, ''U'' \<mapsto> 8 / 10, ''R'' \<mapsto> 1 / 10, ''D'' \<mapsto> 0] \<or>
        row = [''U'' \<mapsto> 1 / 10, ''R'' \<mapsto> 8 / 10, ''D'' \<mapsto> 1 / 10, ''L'' \<mapsto> 0] \<or>
        row = [''R'' \<mapsto> 1 / 10, ''D'' \<mapsto> 8 / 10, ''L'' \<mapsto> 1 / 10, ''U'' \<mapsto> 0] \<or>
        row = [''D'' \<mapsto> 1 / 10, ''L'' \<mapsto> 8 / 10, ''U'' \<mapsto> 1 / 10, ''R'' \<mapsto> 0]"
      by (simp add: action_outcomes_eval split: if_splits)
    then show ?thesis
      by (elim disjE) (simp_all add: actions_def insert_commute)
  qed
  have each: "outcome_prob i i = Some (8 / 10) \<and>
           outcome_prob i ((i + 1) mod 4) = Some (1 / 10) \<and>
           outcome_prob i ((i + 3) mod 4) = Some (1 / 10) \<and>
           outcome_prob i ((i + 2) mod 4) = Some 0" if "i < 4" for i
  proof -
    from that have "i = 0 \<or> i = 1 \<or> i = 2 \<or> i = 3" by arith
    then show ?thesis
      by (elim disjE) (simp_all add: outcome_prob_def py_index_def action_outcomes_eval actions_def)
  qed
  from shape keys rows each show ?thesis by blast
qed

theorem action_outcomes_noise_witness:
  "outcome_prob 2 2 = Some (8 / 10) \<and> outcome_prob 2 3 = Some (1 / 10) \<and>
   outcome_prob 2 1 = Some (1 / 10) \<and> outcome_prob 2 0 = Some 0 \<and>
   (action_outcomes ''R'' \<bind> (\<lambda>row. row ''R'')) = Some (8 / 10)"
proof -
  have "(2::nat) < 4" by simp
  from action_outcomes_noise [THEN conjunct2, THEN conjunct2, THEN conjunct2, THEN conjunct2,
      rule_format, OF this]
  show ?thesis
    by (simp add: action_outcomes_eval)
qed

section \<open>One call of the builder\<close>

lemma update_skip:
  assumes shT: "shape3 T num_actions num_states num_states"
      and st: "state < num_states" and ac: "action < num_actions"
      and skip: "state \<in> set (map fst absorbing_states) \<or> state = blocked_state"
  shows "update_transitions_and_rewards (T, R) state action outcome =
           Some (tensor_upd T action state state 1, R)"
  using skip tset_ok [OF shT ac st st]
  by (simp add: update_transitions_and_rewards_def)

lemma update_bounce:
  assumes shT: "shape3 T num_actions num_states num_states"
      and shR: "shape3 R num_actions num_states num_states"
      and st: "state < num_states" and ac: "action < num_actions"
      and noskip: "\<not> (state \<in> set (map fst absorbing_states) \<or> state = blocked_state)"
      and cell: "get_new_cell state outcome = Some c"
      and prob: "outcome_prob action outcome = Some p"
      and bounce: "c \<notin> set cells \<or> c = blocked_cell"
  shows "update_transitions_and_rewards (T, R) state action outcome =
           Some (tensor_upd T action state state (T ! action ! state ! state + p),
                 tensor_upd R action state state baseline_reward)"
  using noskip cell prob bounce tset_ok [OF shT ac st st] tset_ok [OF shR ac st st]
    tget_ok [OF shT ac st st]
  by (simp add: update_transitions_and_rewards_def)

lemma update_move:
  assumes shT: "shape3 T num_actions num_states num_states"
      and shR: "shape3 R num_actions num_states num_states"
      and st: "state < num_states" and ac: "action < num_actions"
      and noskip: "\<not> (state \<in> set (map fst absorbing_states) \<or> state = blocked_state)"
      and cell: "get_new_cell state outcome = Some c"
      and prob: "outcome_prob action outcome = Some p"
      and inside: "\<not> (c \<notin> set cells \<or> c = blocked_cell)"
  shows "\<exists>d<num_states. to_1d c = Some d \<and>
           update_transitions_and_rewards (T, R) state action outcome =
             Some (tensor_upd T action state d p, tensor_upd R action state d (state_rewards ! d))"
proof -
  from inside have "c \<in> set cells" by simp
  then obtain d where d: "d < num_states" "to_1d c = Some d"
    using to_1d_cells by blast
  have "py_index state_rewards d = Some (state_rewards ! d)"
    using d(1) by (simp add: py_index_def state_rewards_length)
  then have "update_transitions_and_rewards (T, R) state action outcome =
             Some (tensor_upd T action state d p, tensor_upd R action state d (state_rewards ! d))"
    using noskip cell prob inside d(2) tset_ok [OF shT ac st d(1)] tset_ok [OF shR ac st d(1)]
    by (simp add: update_transitions_and_rewards_def)
  with d show ?thesis by blast
qed

text \<open>
  Claim C4. Let the tensors have the shape the notebook gives them and let state, action
  and outcome be in range. Then the call raises nothing, and what it changes is one entry
  of each tensor, in row \<open>(action, state)\<close> and at a destination index below
  \<^verbatim>\<open>num_states\<close>. If moreover the state is neither absorbing nor blocked and the cell the
  outcome leads to is outside the grid or is the blocked cell, the call adds the outcome's
  probability to the entry \<open>(action, state, state)\<close> of the transitions (it does not
  replace what is there) and sets the same entry of the rewards to the baseline reward.
\<close>

theorem bounce_accumulates_on_self:
  assumes shT: "shape3 T num_actions num_states num_states"
      and shR: "shape3 R num_actions num_states num_states"
      and st: "state < num_states" and ac: "action < num_actions" and oc: "outcome < num_actions"
  shows "(\<exists>d<num_states. \<exists>x y. update_transitions_and_rewards (T, R) state action outcome =
             Some (tensor_upd T action state d x, tensor_upd R action state d y)) \<and>
         (state \<notin> set (map fst absorbing_states) \<and> state \<noteq> blocked_state \<longrightarrow>
            (\<forall>c p. get_new_cell state outcome = Some c \<and> (c \<notin> set cells \<or> c = blocked_cell) \<and>
                   outcome_prob action outcome = Some p \<longrightarrow>
               update_transitions_and_rewards (T, R) state action outcome =
                 Some (tensor_upd T action state state (T ! action ! state ! state + p),
                       tensor_upd R action state state baseline_reward)))"
proof (intro conjI impI allI)
  obtain c where c: "get_new_cell state outcome = Some c"
    using get_new_cell_total [OF st oc] by blast
  obtain p where p: "outcome_prob action outcome = Some p"
    using outcome_prob_total [OF ac oc] by blast
  show "\<exists>d<num_states. \<exists>x y. update_transitions_and_rewards (T, R) state action outcome =
             Some (tensor_upd T action state d x, tensor_upd R action state d y)"
  proof (cases "state \<in> set (map fst absorbing_states) \<or> state = blocked_state")
    case True
    have "update_transitions_and_rewards (T, R) state action outcome =
            Some (tensor_upd T action state state 1,
                  tensor_upd R action state state (R ! action ! state ! state))"
      using update_skip [OF shT st ac True] by (simp add: tensor_upd_same)
    with st show ?thesis by blast
  next
    case noskip: False
    show ?thesis
    proof (cases "c \<notin> set cells \<or> c = blocked_cell")
      case True
      from update_bounce [OF shT shR st ac noskip c p True] st show ?thesis by blast
    next
      case False
      from update_move [OF shT shR st ac noskip c p False] show ?thesis by blast
    qed
  qed
next
  fix c p
  assume "state \<notin> set (map fst absorbing_states) \<and> state \<noteq> blocked_state"
    and "get_new_cell state outcome = Some c \<and> (c \<notin> set cells \<or> c = blocked_cell) \<and>
         outcome_prob action outcome = Some p"
  then show "update_transitions_and_rewards (T, R) state action outcome =
                 Some (tensor_upd T action state state (T ! action ! state ! state + p),
                       tensor_upd R action state state baseline_reward)"
    using update_bounce [OF shT shR st ac, of outcome c p] by blast
qed

section \<open>The tensors that the build loop leaves\<close>

lemma build_eval:
  "build = Some
    ([[[9 / 10, 0, 0, 0, 1 / 10, 0, 0, 0, 0, 0, 0, 0],
      [4 / 5, 1 / 5, 0, 0, 0, 0, 0, 0, 0, 0, 0, 0],
      [0, 4 / 5, 1 / 10, 0, 0, 0, 1 / 10, 0, 0, 0, 0, 0],
      [0, 0, 0, 1, 0, 0, 0, 0, 0, 0, 0, 0],
      [1 / 10, 0, 0, 0, 4 / 5, 0, 0, 0, 1 / 10, 0, 0, 0],
      [0, 0, 0, 0, 0, 1, 0, 0, 0, 0, 0, 0],
      [0, 0, 1 / 10, 0, 0, 0, 4 / 5, 0, 0, 0, 1 / 10, 0],
      [0, 0, 0, 0, 0, 0, 0, 1, 0, 0, 0, 0],
      [0, 0, 0, 0, 1 / 10, 0, 0, 0, 9 / 10, 0, 0, 0],
      [0, 0, 0, 0, 0, 0, 0, 0, 4 / 5, 1 / 5, 0, 0],
      [0, 0, 0, 0, 0, 0, 1 / 10, 0, 0, 4 / 5, 1 / 10, 0],
      [0, 0, 0, 0, 0, 0, 0, 1 / 10, 0, 0, 4 / 5, 1 / 10]],
      [[9 / 10, 1 / 10, 0, 0, 0, 0, 0, 0, 0, 0, 0, 0],
      [1 / 10, 4 / 5, 1 / 10, 0, 0, 0, 0, 0, 0, 0, 0, 0],
      [0, 1 / 10, 4 / 5, 1 / 10, 0, 0, 0, 0, 0, 0, 0, 0],
      [0, 0, 0, 1, 0, 0, 0, 0, 0, 0, 0, 0],
      [4 / 5, 0, 0, 0, 1 / 5, 0, 0, 0, 0, 0, 0, 0],
      [0, 0, 0, 0, 0, 1, 0, 0, 0, 0, 0, 0],
      [0, 0, 4 / 5, 0, 0, 0, 1 / 10, 1 / 10, 0, 0, 0, 0],
      [0, 0, 0, 0, 0, 0, 0, 1, 0, 0, 0, 0],
      [0, 0, 0, 0, 4 / 5, 0, 0, 0, 1 / 10, 1 / 10, 0, 0],
      [0, 0, 0, 0, 0, 0, 0, 0, 1 / 10, 4 / 5, 1 / 10, 0],
      [0, 0, 0, 0, 0, 0, 4 / 5, 0, 0, 1 / 10, 0, 1 / 10],
      [0, 0, 0, 0, 0, 0, 0, 4 / 5, 0, 0, 1 / 10, 1 / 10]],
      [[1 / 10, 4 / 5, 0, 0, 1 / 10, 0, 0, 0, 0, 0, 0, 0],
      [0, 1 / 5, 4 / 5, 0, 0, 0, 0, 0, 0, 0, 0, 0],
      [0, 0, 1 / 10, 4 / 5, 0, 0, 1 / 10, 0, 0, 0, 0, 0],
      [0, 0, 0, 1, 0, 0, 0, 0, 0, 0, 0, 0],
      [1 / 10, 0, 0, 0, 4 / 5, 0, 0, 0, 1 / 10, 0, 0, 0],
      [0, 0, 0, 0, 0, 1, 0, 0, 0, 0, 0, 0],
      [0, 0, 1 / 10, 0, 0, 0, 0, 4 / 5, 0, 0, 1 / 10, 0],
      [0, 0, 0, 0, 0, 0, 0, 1, 0, 0, 0, 0],
      [0, 0, 0, 0, 1 / 10, 0, 0, 0, 1 / 10, 4 / 5, 0, 0],
      [0, 0, 0, 0, 0, 0, 0, 0, 0, 1 / 5, 4 / 5, 0],
      [0, 0, 0, 0, 0, 0, 1 / 10, 0, 0, 0, 1 / 10, 4 / 5],
      [0, 0, 0, 0, 0, 0, 0, 1 / 10, 0, 0, 0, 9 / 10]],
      [[1 / 10, 1 / 10, 0, 0, 4 / 5, 0, 0, 0, 0, 0, 0, 0],
      [1 / 10, 4 / 5, 1 / 10, 0, 0, 0, 0, 0, 0, 0, 0, 0],
      [0, 1 / 10, 0, 1 / 10, 0, 0, 4 / 5, 0, 0, 0, 0, 0],
      [0, 0, 0, 1, 0, 0, 0, 0, 0, 0, 0, 0],
      [0, 0, 0, 0, 1 / 5, 0, 0, 0, 4 / 5, 0, 0, 0],
      [0, 0, 0, 0, 0, 1, 0, 0, 0, 0, 0, 0],
      [0, 0, 0, 0, 0, 0, 1 / 10, 1 / 10, 0, 0, 4 / 5, 0],
      [0, 0, 0, 0, 0, 0, 0, 1, 0, 0, 0, 0],
      [0, 0, 0, 0, 0, 0, 0, 0, 9 / 10, 1 / 10, 0, 0],
      [0, 0, 0, 0, 0, 0, 0, 0, 1 / 10, 4 / 5, 1 / 10, 0],
      [0, 0, 0, 0, 0, 0, 0, 0, 0, 1 / 10, 4 / 5, 1 / 10],
      [0, 0, 0, 0, 0, 0, 0, 0, 0, 0, 1 / 10, 9 / 10]]],
     [[[- (1 / 50), - (1 / 50), 0, 0, - (1 / 50), 0, 0, 0, 0, 0, 0, 0],
      [- (1 / 50), - (1 / 50), - (1 / 50), 0, 0, 0, 0, 0, 0, 0, 0, 0],
      [0, - (1 / 50), - (1 / 50), 1, 0, 0, - (1 / 50), 0, 0, 0, 0, 0],
      [0, 0, 0, 0, 0, 0, 0, 0, 0, 0, 0, 0],
      [- (1 / 50), 0, 0, 0, - (1 / 50), 0, 0, 0, - (1 / 50), 0, 0, 0],
      [0, 0, 0, 0, 0, 0, 0, 0, 0, 0, 0, 0],
      [0, 0, - (1 / 50), 0, 0, 0, - (1 / 50), - 1, 0, 0, - (1 / 50), 0],
      [0, 0, 0, 0, 0, 0, 0, 0, 0, 0, 0, 0],
      [0, 0, 0, 0, - (1 / 50), 0, 0, 0, - (1 / 50), - (1 / 50), 0, 0],
      [0, 0, 0, 0, 0, 0, 0, 0, - (1 / 50), - (1 / 50), - (1 / 50), 0],
      [0, 0, 0, 0, 0, 0, - (1 / 50), 0, 0, - (1 / 50), - (1 / 50), - (1 / 50)],
      [0, 0, 0, 0, 0, 0, 0, - 1, 0, 0, - (1 / 50), - (1 / 50)]],
      [[- (1 / 50), - (1 / 50), 0, 0, - (1 / 50), 0, 0, 0, 0, 0, 0, 0],
      [- (1 / 50), - (1 / 50), - (1 / 50), 0, 0, 0, 0, 0, 0, 0, 0, 0],
      [0, - (1 / 50), - (1 / 50), 1, 0, 0, - (1 / 50), 0, 0, 0, 0, 0],
      [0, 0, 0, 0, 0, 0, 0, 0, 0, 0, 0, 0],
      [- (1 / 50), 0, 0, 0, - (1 / 50), 0, 0, 0, - (1 / 50), 0, 0, 0],
      [0, 0, 0, 0, 0, 0, 0, 0, 0, 0, 0, 0],
      [0, 0, - (1 / 50), 0, 0, 0, - (1 / 50), - 1, 0, 0, - (1 / 50), 0],
      [0, 0, 0, 0, 0, 0, 0, 0, 0, 0, 0, 0],
      [0, 0, 0, 0, - (1 / 50), 0, 0, 0, - (1 / 50), - (1 / 50), 0, 0],
      [0, 0, 0, 0, 0, 0, 0, 0, - (1 / 50), - (1 / 50), - (1 / 50), 0],
      [0, 0, 0, 0, 0, 0, - (1 / 50), 0, 0, - (1 / 50), - (1 / 50), - (1 / 50)],
      [0, 0, 0, 0, 0, 0, 0, - 1, 0, 0, - (1 / 50), - (1 / 50)]],
      [[- (1 / 50), - (1 / 50), 0, 0, - (1 / 50), 0, 0, 0, 0, 0, 0, 0],
      [- (1 / 50), - (1 / 50), - (1 / 50), 0, 0, 0, 0, 0, 0, 0, 0, 0],
      [0, - (1 / 50), - (1 / 50), 1, 0, 0, - (1 / 50), 0, 0, 0, 0, 0],
      [0, 0, 0, 0, 0, 0, 0, 0, 0, 0, 0, 0],
      [- (1 / 50), 0, 0, 0, - (1 / 50), 0, 0, 0, - (1 / 50), 0, 0, 0],
      [0, 0, 0, 0, 0, 0, 0, 0, 0, 0, 0, 0],
      [0, 0, - (1 / 50), 0, 0, 0, - (1 / 50), - 1, 0, 0, - (1 / 50), 0],
      [0, 0, 0, 0, 0, 0, 0, 0, 0, 0, 0, 0],
      [0, 0, 0, 0, - (1 / 50), 0, 0, 0, - (1 / 50), - (1 / 50), 0, 0],
      [0, 0, 0, 0, 0, 0, 0, 0, - (1 / 50), - (1 / 50), - (1 / 50), 0],
      [0, 0, 0, 0, 0, 0, - (1 / 50), 0, 0, - (1 / 50), - (1 / 50), - (1 / 50)],
      [0, 0, 0, 0, 0, 0, 0, - 1, 0, 0, - (1 / 50), - (1 / 50)]],
      [[- (1 / 50), - (1 / 50), 0, 0, - (1 / 50), 0, 0, 0, 0, 0, 0, 0],
      [- (1 / 50), - (1 / 50), - (1 / 50), 0, 0, 0, 0, 0, 0, 0, 0, 0],
      [0, - (1 / 50), - (1 / 50), 1, 0, 0, - (1 / 50), 0, 0, 0, 0, 0],
      [0, 0, 0, 0, 0, 0, 0, 0, 0, 0, 0, 0],
      [- (1 / 50), 0, 0, 0, - (1 / 50), 0, 0, 0, - (1 / 50), 0, 0, 0],
      [0, 0, 0, 0, 0, 0, 0, 0, 0, 0, 0, 0],
      [0, 0, - (1 / 50), 0, 0, 0, - (1 / 50), - 1, 0, 0, - (1 / 50), 0],
      [0, 0, 0, 0, 0, 0, 0, 0, 0, 0, 0, 0],
      [0, 0, 0, 0, - (1 / 50), 0, 0, 0, - (1 / 50), - (1 / 50), 0, 0],
      [0, 0, 0, 0, 0, 0, 0, 0, - (1 / 50), - (1 / 50), - (1 / 50), 0],
      [0, 0, 0, 0, 0, 0, - (1 / 50), 0, 0, - (1 / 50), - (1 / 50), - (1 / 50)],
      [0, 0, 0, 0, 0, 0, 0, - 1, 0, 0, - (1 / 50), - (1 / 50)]]])"
  by code_simp

lemma transitions_eval:
  "transitions =
     [[[9 / 10, 0, 0, 0, 1 / 10, 0, 0, 0, 0, 0, 0, 0],
      [4 / 5, 1 / 5, 0, 0, 0, 0, 0, 0, 0, 0, 0, 0],
      [0, 4 / 5, 1 / 10, 0, 0, 0, 1 / 10, 0, 0, 0, 0, 0],
      [0, 0, 0, 1, 0, 0, 0, 0, 0, 0, 0, 0],
      [1 / 10, 0, 0, 0, 4 / 5, 0, 0, 0, 1 / 10, 0, 0, 0],
      [0, 0, 0, 0, 0, 1, 0, 0, 0, 0, 0, 0],
      [0, 0, 1 / 10, 0, 0, 0, 4 / 5, 0, 0, 0, 1 / 10, 0],
      [0, 0, 0, 0, 0, 0, 0, 1, 0, 0, 0, 0],
      [0, 0, 0, 0, 1 / 10, 0, 0, 0, 9 / 10, 0, 0, 0],
      [0, 0, 0, 0, 0, 0, 0, 0, 4 / 5, 1 / 5, 0, 0],
      [0, 0, 0, 0, 0, 0, 1 / 10, 0, 0, 4 / 5, 1 / 10, 0],
      [0, 0, 0, 0, 0, 0, 0, 1 / 10, 0, 0, 4 / 5, 1 / 10]],
      [[9 / 10, 1 / 10, 0, 0, 0, 0, 0, 0, 0, 0, 0, 0],
      [1 / 10, 4 / 5, 1 / 10, 0, 0, 0, 0, 0, 0, 0, 0, 0],
      [0, 1 / 10, 4 / 5, 1 / 10, 0, 0, 0, 0, 0, 0, 0, 0],
      [0, 0, 0, 1, 0, 0, 0, 0, 0, 0, 0, 0],
      [4 / 5, 0, 0, 0, 1 / 5, 0, 0, 0, 0, 0, 0, 0],
      [0, 0, 0, 0, 0, 1, 0, 0, 0, 0, 0, 0],
      [0, 0, 4 / 5, 0, 0, 0, 1 / 10, 1 / 10, 0, 0, 0, 0],
      [0, 0, 0, 0, 0, 0, 0, 1, 0, 0, 0, 0],
      [0, 0, 0, 0, 4 / 5, 0, 0, 0, 1 / 10, 1 / 10, 0, 0],
      [0, 0, 0, 0, 0, 0, 0, 0, 1 / 10, 4 / 5, 1 / 10, 0],
      [0, 0, 0, 0, 0, 0, 4 / 5, 0, 0, 1 / 10, 0, 1 / 10],
      [0, 0, 0, 0, 0, 0, 0, 4 / 5, 0, 0, 1 / 10, 1 / 10]],
      [[1 / 10, 4 / 5, 0, 0, 1 / 10, 0, 0, 0, 0, 0, 0, 0],
      [0, 1 / 5, 4 / 5, 0, 0, 0, 0, 0, 0, 0, 0, 0],
      [0, 0, 1 / 10, 4 / 5, 0, 0, 1 / 10, 0, 0, 0, 0, 0],
      [0, 0, 0, 1, 0, 0, 0, 0, 0, 0, 0, 0],
      [1 / 10, 0, 0, 0, 4 / 5, 0, 0, 0, 1 / 10, 0, 0, 0],
      [0, 0, 0, 0, 0, 1, 0, 0, 0, 0, 0, 0],
      [0, 0, 1 / 10, 0, 0, 0, 0, 4 / 5, 0, 0, 1 / 10, 0],
      [0, 0, 0, 0, 0, 0, 0, 1, 0, 0, 0, 0],
      [0, 0, 0, 0, 1 / 10, 0, 0, 0, 1 / 10, 4 / 5, 0, 0],
      [0, 0, 0, 0, 0, 0, 0, 0, 0, 1 / 5, 4 / 5, 0],
      [0, 0, 0, 0, 0, 0, 1 / 10, 0, 0, 0, 1 / 10, 4 / 5],
      [0, 0, 0, 0, 0, 0, 0, 1 / 10, 0, 0, 0, 9 / 10]],
      [[1 / 10, 1 / 10, 0, 0, 4 / 5, 0, 0, 0, 0, 0, 0, 0],
      [1 / 10, 4 / 5, 1 / 10, 0, 0, 0, 0, 0, 0, 0, 0, 0],
      [0, 1 / 10, 0, 1 / 10, 0, 0, 4 / 5, 0, 0, 0, 0, 0],
      [0, 0, 0, 1, 0, 0, 0, 0, 0, 0, 0, 0],
      [0, 0, 0, 0, 1 / 5, 0, 0, 0, 4 / 5, 0, 0, 0],
      [0, 0, 0, 0, 0, 1, 0, 0, 0, 0, 0, 0],
      [0, 0, 0, 0, 0, 0, 1 / 10, 1 / 10, 0, 0, 4 / 5, 0],
      [0, 0, 0, 0, 0, 0, 0, 1, 0, 0, 0, 0],
      [0, 0, 0, 0, 0, 0, 0, 0, 9 / 10, 1 / 10, 0, 0],
      [0, 0, 0, 0, 0, 0, 0, 0, 1 / 10, 4 / 5, 1 / 10, 0],
      [0, 0, 0, 0, 0, 0, 0, 0, 0, 1 / 10, 4 / 5, 1 / 10],
      [0, 0, 0, 0, 0, 0, 0, 0, 0, 0, 1 / 10, 9 / 10]]]"
  by (simp add: transitions_def build_eval)

lemma rewards_eval:
  "rewards =
     [[[- (1 / 50), - (1 / 50), 0, 0, - (1 / 50), 0, 0, 0, 0, 0, 0, 0],
      [- (1 / 50), - (1 / 50), - (1 / 50), 0, 0, 0, 0, 0, 0, 0, 0, 0],
      [0, - (1 / 50), - (1 / 50), 1, 0, 0, - (1 / 50), 0, 0, 0, 0, 0],
      [0, 0, 0, 0, 0, 0, 0, 0, 0, 0, 0, 0],
      [- (1 / 50), 0, 0, 0, - (1 / 50), 0, 0, 0, - (1 / 50), 0, 0, 0],
      [0, 0, 0, 0, 0, 0, 0, 0, 0, 0, 0, 0],
      [0, 0, - (1 / 50), 0, 0, 0, - (1 / 50), - 1, 0, 0, - (1 / 50), 0],
      [0, 0, 0, 0, 0, 0, 0, 0, 0, 0, 0, 0],
      [0, 0, 0, 0, - (1 / 50), 0, 0, 0, - (1 / 50), - (1 / 50), 0, 0],
      [0, 0, 0, 0, 0, 0, 0, 0, - (1 / 50), - (1 / 50), - (1 / 50), 0],
      [0, 0, 0, 0, 0, 0, - (1 / 50), 0, 0, - (1 / 50), - (1 / 50), - (1 / 50)],
      [0, 0, 0, 0, 0, 0, 0, - 1, 0, 0, - (1 / 50), - (1 / 50)]],
      [[- (1 / 50), - (1 / 50), 0, 0, - (1 / 50), 0, 0, 0, 0, 0, 0, 0],
      [- (1 / 50), - (1 / 50), - (1 / 50), 0, 0, 0, 0, 0, 0, 0, 0, 0],
      [0, - (1 / 50), - (1 / 50), 1, 0, 0, - (1 / 50), 0, 0, 0, 0, 0],
      [0, 0, 0, 0, 0, 0, 0, 0, 0, 0, 0, 0],
      [- (1 / 50), 0, 0, 0, - (1 / 50), 0, 0, 0, - (1 / 50), 0, 0, 0],
      [0, 0, 0, 0, 0, 0, 0, 0, 0, 0, 0, 0],
      [0, 0, - (1 / 50), 0, 0, 0, - (1 / 50), - 1, 0, 0, - (1 / 50), 0],
      [0, 0, 0, 0, 0, 0, 0, 0, 0, 0, 0, 0],
      [0, 0, 0, 0, - (1 / 50), 0, 0, 0, - (1 / 50), - (1 / 50), 0, 0],
      [0, 0, 0, 0, 0, 0, 0, 0, - (1 / 50), - (1 / 50), - (1 / 50), 0],
      [0, 0, 0, 0, 0, 0, - (1 / 50), 0, 0, - (1 / 50), - (1 / 50), - (1 / 50)],
      [0, 0, 0, 0, 0, 0, 0, - 1, 0, 0, - (1 / 50), - (1 / 50)]],
      [[- (1 / 50), - (1 / 50), 0, 0, - (1 / 50), 0, 0, 0, 0, 0, 0, 0],
      [- (1 / 50), - (1 / 50), - (1 / 50), 0, 0, 0, 0, 0, 0, 0, 0, 0],
      [0, - (1 / 50), - (1 / 50), 1, 0, 0, - (1 / 50), 0, 0, 0, 0, 0],
      [0, 0, 0, 0, 0, 0, 0, 0, 0, 0, 0, 0],
      [- (1 / 50), 0, 0, 0, - (1 / 50), 0, 0, 0, - (1 / 50), 0, 0, 0],
      [0, 0, 0, 0, 0, 0, 0, 0, 0, 0, 0, 0],
      [0, 0, - (1 / 50), 0, 0, 0, - (1 / 50), - 1, 0, 0, - (1 / 50), 0],
      [0, 0, 0, 0, 0, 0, 0, 0, 0, 0, 0, 0],
      [0, 0, 0, 0, - (1 / 50), 0, 0, 0, - (1 / 50), - (1 / 50), 0, 0],
      [0, 0, 0, 0, 0, 0, 0, 0, - (1 / 50), - (1 / 50), - (1 / 50), 0],
      [0, 0, 0, 0, 0, 0, - (1 / 50), 0, 0, - (1 / 50), - (1 / 50), - (1 / 50)],
      [0, 0, 0, 0, 0, 0, 0, - 1, 0, 0, - (1 / 50), - (1 / 50)]],
      [[- (1 / 50), - (1 / 50), 0, 0, - (1 / 50), 0, 0, 0, 0, 0, 0, 0],
      [- (1 / 50), - (1 / 50), - (1 / 50), 0, 0, 0, 0, 0, 0, 0, 0, 0],
      [0, - (1 / 50), - (1 / 50), 1, 0, 0, - (1 / 50), 0, 0, 0, 0, 0],
      [0, 0, 0, 0, 0, 0, 0, 0, 0, 0, 0, 0],
      [- (1 / 50), 0, 0, 0, - (1 / 50), 0, 0, 0, - (1 / 50), 0, 0, 0],
      [0, 0, 0, 0, 0, 0, 0, 0, 0, 0, 0, 0],
      [0, 0, - (1 / 50), 0, 0, 0, - (1 / 50), - 1, 0, 0, - (1 / 50), 0],
      [0, 0, 0, 0, 0, 0, 0, 0, 0, 0, 0, 0],
      [0, 0, 0, 0, - (1 / 50), 0, 0, 0, - (1 / 50), - (1 / 50), 0, 0],
      [0, 0, 0, 0, 0, 0, 0, 0, - (1 / 50), - (1 / 50), - (1 / 50), 0],
      [0, 0, 0, 0, 0, 0, - (1 / 50), 0, 0, - (1 / 50), - (1 / 50), - (1 / 50)],
      [0, 0, 0, 0, 0, 0, 0, - 1, 0, 0, - (1 / 50), - (1 / 50)]]]"
  by (simp add: rewards_def build_eval)

lemma shape3_transitions: "shape3 transitions num_actions num_states num_states"
  by (simp add: transitions_eval shape3_def num_eval)

lemma shape3_rewards: "shape3 rewards num_actions num_states num_states"
  by (simp add: rewards_eval shape3_def num_eval)

lemma upt12: "[0..<12] = [0, 1, 2, 3, 4, 5, 6, 7, 8, 9, 10, 11]"
  by (simp add: upt_rec)

lemma all_below_states: "(\<forall>s<num_states. P s) \<longleftrightarrow> list_all P [0, 1, 2, 3, 4, 5, 6, 7, 8, 9, 10, 11]"
proof -
  have "(\<forall>s<num_states. P s) \<longleftrightarrow> (\<forall>s\<in>set [0..<12]. P s)"
    by (auto simp add: num_eval)
  then show ?thesis
    unfolding upt12 by (simp add: list_all_iff)
qed

lemma row_sums: "list_all (list_all (\<lambda>row. sum_list row = 1)) transitions"
  by (simp add: transitions_eval)

text \<open>
  Claim C3. The build loop over all (action, outcome, state) triples completes, the
  transition tensor it leaves has shape (num_actions, num_states, num_states), and for
  every action and every source state, the blocked and absorbing ones included, the
  probabilities over the destination states sum to exactly 1.
\<close>

theorem transition_rows_sum_to_one:
  "build \<noteq> None \<and> shape3 transitions num_actions num_states num_states \<and>
   (\<forall>a<num_actions. \<forall>s<num_states. sum_list (transitions ! a ! s) = 1)"
proof -
  have "sum_list (transitions ! a ! s) = 1" if "a < num_actions" "s < num_states" for a s
    using row_sums shape3_nth(1,2) [OF shape3_transitions that]
    by (simp add: list_all_length)
  then show ?thesis
    using shape3_transitions by (simp add: build_eval)
qed

theorem transition_rows_sum_to_one_witness:
  "sum_list (transitions ! 2 ! 6) = 1 \<and> sum_list (transitions ! 0 ! 5) = 1"
  using transition_rows_sum_to_one by (simp add: num_eval)

lemma skip_rows:
  "list_all (\<lambda>a. list_all (\<lambda>s. transitions ! a ! s ! s = 1 \<and>
      list_all (\<lambda>s'. rewards ! a ! s ! s' = 0) [0, 1, 2, 3, 4, 5, 6, 7, 8, 9, 10, 11]) [3, 7, 5])
     [0, 1, 2, 3]"
  by (simp add: transitions_eval rewards_eval)

text \<open>
  Claim C6. For a blocked or absorbing source state, every action and every outcome, the
  call sets the entry \<open>(action, state, state)\<close> of the transitions to 1 and returns the
  rewards as they were; in the tensors that the build loop leaves, that entry is 1 and
  every reward entry of the row \<open>(action, state)\<close> is 0, so no terminal reward is stored
  in an absorbing state's own row.
\<close>

theorem skip_state_self_loop:
  assumes shT: "shape3 T num_actions num_states num_states"
      and st: "state < num_states" and ac: "action < num_actions"
      and skip: "state \<in> set (map fst absorbing_states) \<or> state = blocked_state"
  shows "update_transitions_and_rewards (T, R) state action outcome =
           Some (tensor_upd T action state state 1, R) \<and>
         transitions ! action ! state ! state = 1 \<and>
         (\<forall>s'<num_states. rewards ! action ! state ! s' = 0)"
proof -
  from skip have "state \<in> set [3, 7, 5]"
    by (auto simp add: skip_eval)
  moreover from ac have "action \<in> set [0, 1, 2, 3]"
    using action_cases by auto
  ultimately have "transitions ! action ! state ! state = 1 \<and>
      list_all (\<lambda>s'. rewards ! action ! state ! s' = 0) [0, 1, 2, 3, 4, 5, 6, 7, 8, 9, 10, 11]"
    using skip_rows unfolding list_all_iff by blast
  then show ?thesis
    using update_skip [OF shT st ac skip] by (simp add: all_below_states)
qed

lemma shape3_zeros: "shape3 (np_zeros3 a b c) a b c"
  by (simp add: shape3_def np_zeros3_def list_all_iff)

lemma list_all_list_update:
  assumes "list_all P xs" "i < length xs \<Longrightarrow> P y"
  shows "list_all P (xs[i := y])"
  using assms by (cases "i < length xs") (auto simp add: list_all_length nth_list_update)

lemma shape3_tensor_upd:
  assumes "shape3 T A S S'"
  shows "shape3 (tensor_upd T a s s' v) A S S'"
proof -
  let ?row = "\<lambda>row. length row = S'"
  let ?mat = "\<lambda>M. length M = S \<and> list_all ?row M"
  from assms have all: "list_all ?mat T" and len: "length T = A"
    by (simp_all add: shape3_def)
  have "?mat ((T ! a)[s := (T ! a ! s)[s' := v]])" if "a < length T"
  proof -
    from all that have M: "?mat (T ! a)"
      by (simp add: list_all_length)
    then have "list_all ?row ((T ! a)[s := (T ! a ! s)[s' := v]])"
      by (intro list_all_list_update) (simp_all add: list_all_length)
    with M show ?thesis by simp
  qed
  with all have "list_all ?mat (T[a := (T ! a)[s := (T ! a ! s)[s' := v]]])"
    by (intro list_all_list_update)
  with len show ?thesis
    by (simp add: shape3_def tensor_upd_def)
qed

theorem bounce_accumulates_on_self_witness:
  "get_new_cell 0 1 = Some (- 1, 0) \<and> (- 1, 0) \<notin> set cells \<and> outcome_prob 1 1 = Some (8 / 10) \<and>
   0 \<notin> set (map fst absorbing_states) \<and> 0 \<noteq> blocked_state \<and>
   update_transitions_and_rewards
     (tensor_upd (np_zeros3 num_actions num_states num_states) 1 0 0 (1 / 10),
      np_zeros3 num_actions num_states num_states) 0 1 1 =
   Some (tensor_upd (tensor_upd (np_zeros3 num_actions num_states num_states) 1 0 0 (1 / 10))
           1 0 0 (1 / 10 + 8 / 10),
         tensor_upd (np_zeros3 num_actions num_states num_states) 1 0 0 baseline_reward)"
proof -
  let ?Z = "np_zeros3 num_actions num_states num_states"
  let ?T = "tensor_upd ?Z 1 0 0 (1 / 10)"
  have cell: "get_new_cell 0 1 = Some (- 1, 0)"
    by (simp add: get_new_cell_def to_2d_def py_index_def actions_def grid_size_def)
  have out: "(- 1, 0) \<notin> set cells"
    by (simp add: set_cells)
  have prob: "outcome_prob 1 1 = Some (8 / 10)"
    by (simp add: outcome_prob_def py_index_def actions_def action_outcomes_eval)
  have noskip: "0 \<notin> set (map fst absorbing_states) \<and> 0 \<noteq> blocked_state"
    by (simp add: skip_eval)
  have old: "?T ! 1 ! 0 ! 0 = 1 / 10"
    by (simp add: tensor_upd_def np_zeros3_def num_eval)
  have rng: "0 < num_states" "1 < num_actions"
    by (simp_all add: num_eval)
  have hyp: "get_new_cell 0 1 = Some (- 1, 0) \<and> ((- 1, 0) \<notin> set cells \<or> (- 1, 0) = blocked_cell) \<and>
      outcome_prob 1 1 = Some (8 / 10)"
    using cell out prob by simp
  from bounce_accumulates_on_self [OF shape3_tensor_upd [OF shape3_zeros] shape3_zeros rng(1) rng(2) rng(2),
      of 1 0 0 "1 / 10", THEN conjunct2, rule_format, OF noskip hyp]
  show ?thesis using noskip cell out prob unfolding old by simp
qed

theorem skip_state_self_loop_witness:
  "7 \<in> set (map fst absorbing_states) \<and>
   update_transitions_and_rewards
     (np_zeros3 num_actions num_states num_states, np_zeros3 num_actions num_states num_states) 7 2 1 =
   Some (tensor_upd (np_zeros3 num_actions num_states num_states) 2 7 7 1,
         np_zeros3 num_actions num_states num_states) \<and>
   transitions ! 2 ! 7 ! 7 = 1 \<and> rewards ! 2 ! 7 ! 3 = 0"
proof -
  have skip: "7 \<in> set (map fst absorbing_states) \<or> 7 = blocked_state"
    by (simp add: skip_eval)
  have rng: "7 < num_states" "2 < num_actions" "3 < num_states"
    by (simp_all add: num_eval)
  from skip_state_self_loop [OF shape3_zeros rng(1) rng(2) skip, of "np_zeros3 num_actions num_states num_states" 1] rng(3)
  show ?thesis by (simp add: skip_eval)
qed

section \<open>Value Iteration: the sweep and the loop\<close>

lemma exact_simps:
  "fadd exact = (+)" "fsub exact = (-)" "fmul exact = (*)" "fsum exact = sum_list"
  "fdot exact = (\<lambda>xs ys. sum_list (map2 (*) xs ys))"
  by (simp_all add: exact_def)

lemma init_V_length: "length (init_V rnd) = length rnd"
proof -
  have "length (fold (\<lambda>s v. v[s := 0 :: real]) xs v) = length v" for xs v
    by (induction xs arbitrary: v) simp_all
  then show ?thesis by (simp add: init_V_def)
qed

lemma vi_update_simps:
  "V (vi_update A T R gamma w s) = V w"
  "converged (vi_update A T R gamma w s) = converged w"
  "iterations (vi_update A T R gamma w s) = iterations w"
  "heap (vi_update A T R gamma w s) =
     (heap w)[V w := (heap w ! V w)[s := np_max (q_sa A T R gamma (heap w ! V w) s)]]"
  by (simp_all add: vi_update_def setitem_def)

lemma vi_fold_eq:
  assumes "V w < length (heap w)"
  shows "fold (\<lambda>state w'. vi_update A T R gamma w' state) sts w =
           w\<lparr>heap := (heap w)[V w := bellman_sweep A T R gamma sts (heap w ! V w)]\<rparr>"
  using assms
proof (induction sts arbitrary: w)
  case Nil
  then show ?case by (simp add: bellman_sweep_def)
next
  case (Cons s sts)
  let ?w1 = "vi_update A T R gamma w s"
  have "V ?w1 < length (heap ?w1)"
    using Cons.prems by (simp add: vi_update_simps)
  from Cons.IH [OF this] Cons.prems show ?case
    by (simp add: vi_update_simps bellman_sweep_def vi_update_def setitem_def)
qed

lemma vi_sweep_eq:
  assumes "V w < length (heap w)"
  shows "vi_sweep A T R gamma w =
           w\<lparr>heap := (heap w)[V w := bellman_sweep A T R gamma states_to_update (value_of w)]\<rparr>"
  unfolding vi_sweep_def value_of_def by (rule vi_fold_eq [OF assms])

lemma vi_body_eq:
  assumes "V w < length (heap w)"
  shows "vi_body A T R gamma epsilon w =
           w\<lparr>heap := (heap w @ [value_of w])[V w := bellman_sweep A T R gamma states_to_update (value_of w)],
             converged := converged w \<or>
               l1_change A (bellman_sweep A T R gamma states_to_update (value_of w)) (value_of w) < epsilon,
             iterations := iterations w + 1\<rparr>"
proof -
  let ?w0 = "w\<lparr>heap := heap w @ [heap w ! V w]\<rparr>"
  have wf: "V ?w0 < length (heap ?w0)"
    using assms by simp
  have val: "value_of ?w0 = value_of w"
    using assms by (simp add: value_of_def nth_append)
  show ?thesis
    using assms
    by (simp add: vi_body_def np_copy_def vi_sweep_eq [OF wf] val Let_def nth_append value_of_def)
qed

lemma vi_loop_unroll:
  assumes "\<forall>k<n. \<not> converged ((vi_body A T R gamma epsilon ^^ k) w)"
  shows "vi_loop A T R gamma epsilon w = vi_loop A T R gamma epsilon ((vi_body A T R gamma epsilon ^^ n) w)"
  using assms
proof (induction n)
  case 0
  then show ?case by simp
next
  case (Suc n)
  then have "vi_loop A T R gamma epsilon w = vi_loop A T R gamma epsilon ((vi_body A T R gamma epsilon ^^ n) w)"
    by simp
  also have "\<dots> = vi_loop A T R gamma epsilon (vi_body A T R gamma epsilon ((vi_body A T R gamma epsilon ^^ n) w))"
    using Suc.prems by (subst vi_loop.simps) simp
  finally show ?case by simp
qed

lemma vi_loop_SomeD:
  assumes "vi_loop A T R gamma epsilon w = Some w'"
  shows "\<exists>n. w' = (vi_body A T R gamma epsilon ^^ n) w \<and> converged w' \<and>
             (\<forall>k<n. \<not> converged ((vi_body A T R gamma epsilon ^^ k) w))"
proof -
  let ?P = "\<lambda>A T R gamma epsilon w w'.
      \<exists>n. w' = (vi_body A T R gamma epsilon ^^ n) w \<and> converged w' \<and>
          (\<forall>k<n. \<not> converged ((vi_body A T R gamma epsilon ^^ k) w))"
  show "?P A T R gamma epsilon w w'"
  proof (rule vi_loop.raw_induct [where P = ?P, OF _ assms])
    fix loop A T R gamma epsilon and w w' :: solver
    assume IH: "\<And>A T R gamma epsilon w w'. loop A T R gamma epsilon w = Some w' \<Longrightarrow> ?P A T R gamma epsilon w w'"
      and step: "(if \<not> converged w then loop A T R gamma epsilon (vi_body A T R gamma epsilon w) else Some w) = Some w'"
    show "?P A T R gamma epsilon w w'"
    proof (cases "converged w")
      case True
      with step have "w' = w" by simp
      with True show ?thesis by (intro exI [of _ 0]) simp
    next
      case False
      with step have "loop A T R gamma epsilon (vi_body A T R gamma epsilon w) = Some w'" by simp
      from IH [OF this] obtain n where n: "w' = (vi_body A T R gamma epsilon ^^ n) (vi_body A T R gamma epsilon w)"
        "converged w'" "\<forall>k<n. \<not> converged ((vi_body A T R gamma epsilon ^^ k) (vi_body A T R gamma epsilon w))"
        by blast
      have "\<not> converged ((vi_body A T R gamma epsilon ^^ k) w)" if "k < Suc n" for k
        using that False n(3) by (cases k) (simp_all add: funpow_swap1)
      with n(1,2) show ?thesis
        by (intro exI [of _ "Suc n"]) (simp add: funpow_swap1)
    qed
  qed
qed

lemma vi_loop_Some_iff:
  "vi_loop A T R gamma epsilon w = Some w' \<longleftrightarrow>
     (\<exists>n. w' = (vi_body A T R gamma epsilon ^^ n) w \<and> converged w' \<and>
          (\<forall>k<n. \<not> converged ((vi_body A T R gamma epsilon ^^ k) w)))"
proof
  assume "vi_loop A T R gamma epsilon w = Some w'"
  then show "\<exists>n. w' = (vi_body A T R gamma epsilon ^^ n) w \<and> converged w' \<and>
          (\<forall>k<n. \<not> converged ((vi_body A T R gamma epsilon ^^ k) w))"
    by (rule vi_loop_SomeD)
next
  assume "\<exists>n. w' = (vi_body A T R gamma epsilon ^^ n) w \<and> converged w' \<and>
          (\<forall>k<n. \<not> converged ((vi_body A T R gamma epsilon ^^ k) w))"
  then obtain n where n: "w' = (vi_body A T R gamma epsilon ^^ n) w" "converged w'"
      "\<forall>k<n. \<not> converged ((vi_body A T R gamma epsilon ^^ k) w)"
    by blast
  from vi_loop_unroll [OF n(3)] have "vi_loop A T R gamma epsilon w = vi_loop A T R gamma epsilon w'"
    using n(1) by simp
  also have "\<dots> = Some w'"
    using n(2) by (subst vi_loop.simps) simp
  finally show "vi_loop A T R gamma epsilon w = Some w'" .
qed

lemma vi_body_wf:
  assumes "V w < length (heap w)"
  shows "V (vi_body A T R gamma epsilon w) = V w"
    and "length (heap (vi_body A T R gamma epsilon w)) = Suc (length (heap w))"
    and "value_of (vi_body A T R gamma epsilon w) = bellman_sweep A T R gamma states_to_update (value_of w)"
  using assms by (simp_all add: vi_body_eq value_of_def)

lemma vi_iter_wf:
  assumes "V w < length (heap w)"
  shows "V ((vi_body A T R gamma epsilon ^^ k) w) < length (heap ((vi_body A T R gamma epsilon ^^ k) w))"
proof (induction k)
  case 0
  from assms show ?case by simp
next
  case (Suc k)
  from vi_body_wf(1,2) [OF Suc, of A T R gamma epsilon] Suc show ?case by simp
qed

lemma l1_change_nonneg:
  assumes "\<forall>xs. (\<forall>x\<in>set xs. 0 \<le> x) \<longrightarrow> 0 \<le> fsum A xs"
  shows "0 \<le> l1_change A v v'"
proof -
  have "\<forall>x\<in>set (map2 (\<lambda>x y. \<bar>fsub A x y\<bar>) v v'). 0 \<le> x"
    by auto
  with assms show ?thesis
    unfolding l1_change_def by blast
qed

lemma l1_change_states:
  assumes "length v = num_states" "length v' = num_states"
  shows "l1_change A v v' = fsum A (map (\<lambda>s. \<bar>fsub A (v ! s) (v' ! s)\<bar>) [0..<num_states])"
proof -
  have "map2 (\<lambda>x y. \<bar>fsub A x y\<bar>) v v' = map (\<lambda>s. \<bar>fsub A (v ! s) (v' ! s)\<bar>) [0..<num_states]"
    using assms by (intro nth_equalityI) simp_all
  then show ?thesis
    by (simp add: l1_change_def)
qed

lemma vi_never_converges:
  assumes wf: "V w < length (heap w)" and run: "\<not> converged w" and eps: "epsilon \<le> 0"
      and nonneg: "\<forall>xs. (\<forall>x\<in>set xs. 0 \<le> x) \<longrightarrow> 0 \<le> fsum A xs"
  shows "\<not> converged ((vi_body A T R gamma epsilon ^^ k) w)"
proof (induction k)
  case 0
  from run show ?case by simp
next
  case (Suc k)
  let ?w = "(vi_body A T R gamma epsilon ^^ k) w"
  have "\<not> l1_change A (bellman_sweep A T R gamma states_to_update (value_of ?w)) (value_of ?w) < epsilon"
    using l1_change_nonneg [OF nonneg, of "bellman_sweep A T R gamma states_to_update (value_of ?w)" "value_of ?w"] eps
    by linarith
  with Suc show ?case
    by (simp add: vi_body_eq [OF vi_iter_wf [OF wf]])
qed

lemma vi_converged_step:
  assumes "V w < length (heap w)"
  shows "converged (vi_body A T R gamma epsilon w) \<longleftrightarrow>
           converged w \<or> l1_change A (value_of (vi_body A T R gamma epsilon w)) (value_of w) < epsilon"
  unfolding vi_body_wf(3) [OF assms] using assms by (simp add: vi_body_eq)

lemma vi_converged_iff:
  assumes wf: "V w < length (heap w)" and run: "\<not> converged w"
  shows "converged ((vi_body A T R gamma epsilon ^^ k) w) \<longleftrightarrow>
           (\<exists>j<k. l1_change A (value_of ((vi_body A T R gamma epsilon ^^ Suc j) w))
                     (value_of ((vi_body A T R gamma epsilon ^^ j) w)) < epsilon)"
proof (induction k)
  case 0
  from run show ?case by simp
next
  case (Suc k)
  from vi_converged_step [OF vi_iter_wf [OF wf], of A T R gamma epsilon k A T R gamma epsilon] Suc
  show ?case by (auto simp add: less_Suc_eq)
qed

lemma bellman_sweep_length: "length (bellman_sweep A T R gamma sts v) = length v"
  unfolding bellman_sweep_def by (induction sts arbitrary: v) simp_all

lemma vi_pass_length:
  assumes "V w < length (heap w)"
  shows "length (value_of ((vi_body A T R gamma epsilon ^^ k) w)) = length (value_of w)"
proof (induction k)
  case 0
  show ?case by simp
next
  case (Suc k)
  then show ?case
    by (simp add: vi_body_wf(3) [OF vi_iter_wf [OF assms]] bellman_sweep_length)
qed

text \<open>
  Claim C5. Take the Value Iteration loop at a state where it runs (not yet converged,
  \<^verbatim>\<open>V\<close> bound to an array of \<^verbatim>\<open>num_states\<close> entries, tensors of the notebook's shape, so
  that no index is out of range). One pass sets \<^verbatim>\<open>converged\<close> exactly when the sum, over
  all states, of the absolute difference between the entry of \<^verbatim>\<open>V\<close> after the pass and
  the entry before it is below epsilon; the loop returns after pass \<open>n + 1\<close> exactly when
  that pass is the first one whose summed change is below epsilon; and, the sum of
  numbers that are not negative being not negative, for every epsilon that is not
  positive the loop never returns.
\<close>

theorem vi_stops_on_small_change:
  assumes shT: "shape3 T num_actions num_states num_states"
      and shR: "shape3 R num_actions num_states num_states"
      and wf: "V w < length (heap w)" and len: "length (value_of w) = num_states"
      and run: "\<not> converged w"
  shows "(converged (vi_body A T R gamma epsilon w) \<longleftrightarrow>
            fsum A (map (\<lambda>s. \<bar>fsub A (value_of (vi_body A T R gamma epsilon w) ! s) (value_of w ! s)\<bar>)
              [0..<num_states]) < epsilon) \<and>
         (\<forall>w'. vi_loop A T R gamma epsilon w = Some w' \<longleftrightarrow>
            (\<exists>n. w' = (vi_body A T R gamma epsilon ^^ Suc n) w \<and>
               fsum A (map (\<lambda>s. \<bar>fsub A (value_of ((vi_body A T R gamma epsilon ^^ Suc n) w) ! s)
                                  (value_of ((vi_body A T R gamma epsilon ^^ n) w) ! s)\<bar>)
                 [0..<num_states]) < epsilon \<and>
               (\<forall>j<n. \<not> fsum A (map (\<lambda>s. \<bar>fsub A (value_of ((vi_body A T R gamma epsilon ^^ Suc j) w) ! s)
                                  (value_of ((vi_body A T R gamma epsilon ^^ j) w) ! s)\<bar>)
                 [0..<num_states]) < epsilon))) \<and>
         ((\<forall>xs. (\<forall>x\<in>set xs. 0 \<le> x) \<longrightarrow> 0 \<le> fsum A xs) \<and> epsilon \<le> 0 \<longrightarrow>
            vi_loop A T R gamma epsilon w = None)"
proof (intro conjI allI impI)
  let ?it = "\<lambda>k. (vi_body A T R gamma epsilon ^^ k) w"
  let ?change = "\<lambda>j. fsum A (map (\<lambda>s. \<bar>fsub A (value_of (?it (Suc j)) ! s) (value_of (?it j) ! s)\<bar>)
                   [0..<num_states])"
  have lens: "length (value_of (?it k)) = num_states" for k
    using vi_pass_length [OF wf] len by simp
  have change: "l1_change A (value_of (?it (Suc j))) (value_of (?it j)) = ?change j" for j
    by (rule l1_change_states) (rule lens)+
  have conv: "converged (?it k) \<longleftrightarrow> (\<exists>j<k. ?change j < epsilon)" for k
    unfolding change [symmetric] by (rule vi_converged_iff [OF wf run])
  from conv [of 1] show "converged (vi_body A T R gamma epsilon w) \<longleftrightarrow>
          fsum A (map (\<lambda>s. \<bar>fsub A (value_of (vi_body A T R gamma epsilon w) ! s) (value_of w ! s)\<bar>)
            [0..<num_states]) < epsilon"
    by simp
  show "vi_loop A T R gamma epsilon w = Some w' \<longleftrightarrow>
          (\<exists>n. w' = ?it (Suc n) \<and> ?change n < epsilon \<and> (\<forall>j<n. \<not> ?change j < epsilon))" for w'
  proof
    assume "vi_loop A T R gamma epsilon w = Some w'"
    then obtain m where m: "w' = ?it m" "converged w'" "\<forall>k<m. \<not> converged (?it k)"
      using vi_loop_SomeD by blast
    from m(1,2) run obtain n where n: "m = Suc n"
      by (cases m) auto
    from m(3) n have none: "\<forall>j<n. \<not> ?change j < epsilon"
      using conv [of n] by blast
    from m(1,2) n have "\<exists>j<Suc n. ?change j < epsilon"
      using conv [of "Suc n"] by blast
    with none have "?change n < epsilon"
      using less_Suc_eq by blast
    with m(1) n none show "\<exists>n. w' = ?it (Suc n) \<and> ?change n < epsilon \<and> (\<forall>j<n. \<not> ?change j < epsilon)"
      by blast
  next
    assume "\<exists>n. w' = ?it (Suc n) \<and> ?change n < epsilon \<and> (\<forall>j<n. \<not> ?change j < epsilon)"
    then obtain n where n: "w' = ?it (Suc n)" "?change n < epsilon" "\<forall>j<n. \<not> ?change j < epsilon"
      by blast
    have "converged w'"
      unfolding n(1) conv [of "Suc n"] using n(2) by blast
    moreover have "\<not> converged (?it k)" if "k < Suc n" for k
      unfolding conv [of k] using that n(3) by auto
    ultimately show "vi_loop A T R gamma epsilon w = Some w'"
      unfolding vi_loop_Some_iff using n(1) by blast
  qed
next
  assume "(\<forall>xs. (\<forall>x\<in>set xs. 0 \<le> x) \<longrightarrow> 0 \<le> fsum A xs) \<and> epsilon \<le> 0"
  then have nonneg: "\<forall>xs. (\<forall>x\<in>set xs. 0 \<le> x) \<longrightarrow> 0 \<le> fsum A xs" and eps: "epsilon \<le> 0"
    by blast+
  show "vi_loop A T R gamma epsilon w = None"
  proof (rule ccontr)
    assume "vi_loop A T R gamma epsilon w \<noteq> None"
    then obtain w' where "vi_loop A T R gamma epsilon w = Some w'" by blast
    then obtain n where "w' = (vi_body A T R gamma epsilon ^^ n) w" "converged w'"
      using vi_loop_SomeD by blast
    with vi_never_converges [OF wf run eps nonneg] show False by blast
  qed
qed

lemma states_eval: "states = [0, 1, 2, 3, 4, 5, 6, 7, 8, 9, 10, 11]"
  by (simp add: states_def cells_def grid_size_def upt_rec)

lemma skip_states_eval: "skip_states = [3, 7, 5]"
  by (simp add: skip_states_def skip_eval)

lemma states_to_update_eval: "states_to_update = [0, 1, 2, 4, 6, 8, 9, 10, 11]"
  by (simp add: states_to_update_def skip_states_eval states_eval)

lemma bellman_sweep_frame:
  assumes "s \<notin> set sts"
  shows "bellman_sweep A T R gamma sts v ! s = v ! s"
  using assms unfolding bellman_sweep_def
  by (induction sts arbitrary: v) simp_all

lemma bellman_sweep_append:
  "bellman_sweep A T R gamma (xs @ ys) v = bellman_sweep A T R gamma ys (bellman_sweep A T R gamma xs v)"
  by (simp add: bellman_sweep_def)

lemma init_V_zero:
  assumes "length rnd = num_states" "s \<in> set skip_states"
  shows "init_V rnd ! s = 0"
  using assms by (auto simp add: init_V_def skip_states_eval num_eval nth_list_update)

lemma skip_not_updated: "set skip_states \<inter> set states_to_update = {}"
  by (auto simp add: states_to_update_def)

lemma vi_sweep_value:
  assumes "V w < length (heap w)"
  shows "value_of (vi_sweep A T R gamma w) = bellman_sweep A T R gamma states_to_update (value_of w)"
  using assms by (simp add: vi_sweep_eq value_of_def)

lemma vi_iter_skip_zero:
  assumes len: "length rnd = num_states" and s: "s \<in> set skip_states"
  shows "value_of ((vi_body A T R gamma epsilon ^^ k) (vi_start rnd)) ! s = 0"
proof (induction k)
  case 0
  from init_V_zero [OF len s] show ?case
    by (simp add: value_of_def vi_start_def)
next
  case (Suc k)
  have wf: "V (vi_start rnd) < length (heap (vi_start rnd))"
    by (simp add: vi_start_def)
  from s skip_not_updated have "s \<notin> set states_to_update" by blast
  with Suc show ?case
    by (simp add: vi_body_wf(3) [OF vi_iter_wf [OF wf]] bellman_sweep_frame)
qed

text \<open>
  Claim C8. Let the random start have \<^verbatim>\<open>num_states\<close> entries and the tensors the
  notebook's shape. The entries of \<^verbatim>\<open>V\<close> at the
  blocked state and at the absorbing states are 0 after the initialisation; no state of
  \<^verbatim>\<open>skip_states\<close> is in \<^verbatim>\<open>states_to_update\<close>, and a sweep leaves every entry outside
  \<^verbatim>\<open>states_to_update\<close> as it was; so these entries are 0 after any number of passes of
  the loop, and in the state the loop returns, if it returns.
\<close>

theorem vi_skip_states_stay_zero:
  assumes shT: "shape3 T num_actions num_states num_states"
      and shR: "shape3 R num_actions num_states num_states"
      and len: "length rnd = num_states"
  shows "(\<forall>s\<in>set skip_states. value_of (vi_start rnd) ! s = 0) \<and>
         set skip_states \<inter> set states_to_update = {} \<and>
         (\<forall>w s. V w < length (heap w) \<and> s \<notin> set states_to_update \<longrightarrow>
            value_of (vi_sweep A T R gamma w) ! s = value_of w ! s) \<and>
         (\<forall>k. \<forall>s\<in>set skip_states.
            value_of ((vi_body A T R gamma epsilon ^^ k) (vi_start rnd)) ! s = 0) \<and>
         (\<forall>w'. vi_loop A T R gamma epsilon (vi_start rnd) = Some w' \<longrightarrow>
            (\<forall>s\<in>set skip_states. value_of w' ! s = 0))"
proof (intro conjI allI ballI impI)
  fix s assume "s \<in> set skip_states"
  from vi_iter_skip_zero [OF len this, where k = 0]
  show "value_of (vi_start rnd) ! s = 0" by simp
next
  show "set skip_states \<inter> set states_to_update = {}"
    by (rule skip_not_updated)
next
  fix w :: solver and s
  assume "V w < length (heap w) \<and> s \<notin> set states_to_update"
  then show "value_of (vi_sweep A T R gamma w) ! s = value_of w ! s"
    by (simp add: vi_sweep_value bellman_sweep_frame)
next
  fix k s assume "s \<in> set skip_states"
  then show "value_of ((vi_body A T R gamma epsilon ^^ k) (vi_start rnd)) ! s = 0"
    by (rule vi_iter_skip_zero [OF len])
next
  fix w' s
  assume "vi_loop A T R gamma epsilon (vi_start rnd) = Some w'" and s: "s \<in> set skip_states"
  then obtain n where "w' = (vi_body A T R gamma epsilon ^^ n) (vi_start rnd)"
    using vi_loop_SomeD by blast
  with vi_iter_skip_zero [OF len s] show "value_of w' ! s = 0" by simp
qed


theorem vi_skip_states_stay_zero_witness:
  "length (replicate num_states (1 / 2 :: real)) = num_states \<and> 7 \<in> set skip_states \<and>
   value_of ((vi_body exact transitions rewards (99 / 100) (1 / 100000) ^^ 3)
     (vi_start (replicate num_states (1 / 2)))) ! 7 = 0"
proof -
  have len: "length (replicate num_states (1 / 2 :: real)) = num_states" by simp
  have skip: "7 \<in> set skip_states" by (simp add: skip_states_eval)
  from vi_skip_states_stay_zero [OF shape3_transitions shape3_rewards len,
      where gamma = "99 / 100" and epsilon = "1 / 100000"] skip len
  show ?thesis by blast
qed

lemma bellman_sweep_nth:
  assumes dist: "distinct sts" and rng: "\<forall>s\<in>set sts. s < length v" and k: "k < length sts"
  shows "bellman_sweep A T R gamma sts v ! (sts ! k) =
           np_max (q_sa A T R gamma (bellman_sweep A T R gamma (take k sts) v) (sts ! k))"
proof -
  let ?u = "bellman_sweep A T R gamma (take k sts) v"
  have split: "sts = take k sts @ [sts ! k] @ drop (Suc k) sts"
    using k by (simp add: Cons_nth_drop_Suc)
  have notin: "sts ! k \<notin> set (drop (Suc k) sts)"
    using dist k by (metis split distinct_append distinct.simps(2) append_Cons append_Nil)
  have "bellman_sweep A T R gamma sts v =
          bellman_sweep A T R gamma (drop (Suc k) sts) (bellman_sweep A T R gamma [sts ! k] ?u)"
    by (subst split) (simp only: bellman_sweep_append)
  then have "bellman_sweep A T R gamma sts v ! (sts ! k) = bellman_sweep A T R gamma [sts ! k] ?u ! (sts ! k)"
    using notin by (simp add: bellman_sweep_frame)
  also have "\<dots> = np_max (q_sa A T R gamma ?u (sts ! k))"
    using rng k by (simp add: bellman_sweep_def bellman_sweep_length [unfolded bellman_sweep_def])
  finally show ?thesis .
qed

lemma bellman_sweep_prefix:
  assumes dist: "distinct sts" and k: "k \<le> length sts" and s: "s < length v"
  shows "bellman_sweep A T R gamma (take k sts) v ! s =
           (if s \<in> set (take k sts) then bellman_sweep A T R gamma sts v ! s else v ! s)"
proof (cases "s \<in> set (take k sts)")
  case True
  have "sts = take k sts @ drop k sts" by simp
  then have "bellman_sweep A T R gamma sts v =
      bellman_sweep A T R gamma (drop k sts) (bellman_sweep A T R gamma (take k sts) v)"
    by (metis bellman_sweep_append)
  moreover have "s \<notin> set (drop k sts)"
    using dist True by (metis append_take_drop_id distinct_append disjoint_iff)
  ultimately show ?thesis
    using True by (simp add: bellman_sweep_frame)
next
  case False
  then show ?thesis by (simp add: bellman_sweep_frame)
qed

lemma states_to_update_sorted: "sorted_wrt (<) states_to_update"
  by (simp add: states_to_update_eval)

lemma states_to_update_range: "\<forall>s\<in>set states_to_update. s < num_states"
  by (simp add: states_to_update_eval num_eval)

lemma bellman_sweep_mix:
  assumes len: "length v = num_states" and k: "k \<le> length states_to_update"
  shows "bellman_sweep A T R gamma (take k states_to_update) v =
           map (\<lambda>s. if s \<in> set (take k states_to_update)
                     then bellman_sweep A T R gamma states_to_update v ! s else v ! s) [0..<num_states]"
proof (rule nth_equalityI)
  show "length (bellman_sweep A T R gamma (take k states_to_update) v) =
        length (map (\<lambda>s. if s \<in> set (take k states_to_update)
                     then bellman_sweep A T R gamma states_to_update v ! s else v ! s) [0..<num_states])"
    by (simp add: bellman_sweep_length len)
next
  fix s assume "s < length (bellman_sweep A T R gamma (take k states_to_update) v)"
  then have s: "s < num_states"
    by (simp add: bellman_sweep_length len)
  have dist: "distinct states_to_update"
    using states_to_update_sorted by (simp add: states_to_update_eval)
  from s have "s < length v" by (simp add: len)
  from bellman_sweep_prefix [OF dist k this] s
  show "bellman_sweep A T R gamma (take k states_to_update) v ! s =
        map (\<lambda>s. if s \<in> set (take k states_to_update)
                     then bellman_sweep A T R gamma states_to_update v ! s else v ! s) [0..<num_states] ! s"
    by simp
qed

text \<open>
  Claim C10. Let the tensors have the notebook's shape and \<^verbatim>\<open>V\<close> be bound to an array of
  \<^verbatim>\<open>num_states\<close> entries. \<^verbatim>\<open>states_to_update\<close> is in increasing index order, and one
  sweep writes \<^verbatim>\<open>V\<close> in place in that order: the new value of the \<open>k\<close>-th state is the
  Bellman backup over an array that already holds this sweep's new values at the states
  updated before it and the old values everywhere else (not the backup over the array as
  it was before the sweep). The pass ends with the swept array in \<^verbatim>\<open>V\<close>, the snapshot
  \<^verbatim>\<open>V_\<close> still holds the array as it was before the sweep, and the convergence test
  compares the two: it sums, over all states, the absolute difference between the entry
  of \<^verbatim>\<open>V\<close> after the sweep and the entry of the snapshot.
\<close>

theorem vi_sweep_in_place:
  assumes shT: "shape3 T num_actions num_states num_states"
      and shR: "shape3 R num_actions num_states num_states"
      and wf: "V w < length (heap w)" and len: "length (value_of w) = num_states"
  shows "sorted_wrt (<) states_to_update \<and>
         (\<forall>k<length states_to_update.
            value_of (vi_sweep A T R gamma w) ! (states_to_update ! k) =
              np_max (q_sa A T R gamma
                (map (\<lambda>s. if s \<in> set (take k states_to_update)
                          then value_of (vi_sweep A T R gamma w) ! s else value_of w ! s) [0..<num_states])
                (states_to_update ! k))) \<and>
         value_of (vi_body A T R gamma epsilon w) = value_of (vi_sweep A T R gamma w) \<and>
         heap (vi_body A T R gamma epsilon w) ! length (heap w) = value_of w \<and>
         (\<not> converged w \<longrightarrow>
            (converged (vi_body A T R gamma epsilon w) \<longleftrightarrow>
               fsum A (map (\<lambda>s. \<bar>fsub A (heap (vi_body A T R gamma epsilon w) ! V w ! s)
                                  (heap (vi_body A T R gamma epsilon w) ! length (heap w) ! s)\<bar>)
                 [0..<num_states]) < epsilon))"
proof (intro conjI allI impI)
  show "sorted_wrt (<) states_to_update"
    by (rule states_to_update_sorted)
next
  fix k assume k: "k < length states_to_update"
  have dist: "distinct states_to_update"
    by (simp add: states_to_update_eval)
  have rng: "\<forall>s\<in>set states_to_update. s < length (value_of w)"
    using states_to_update_range len by simp
  from k have "k \<le> length states_to_update" by simp
  from bellman_sweep_nth [OF dist rng k, of A T R gamma] bellman_sweep_mix [OF len this, of A T R gamma]
  show "value_of (vi_sweep A T R gamma w) ! (states_to_update ! k) =
          np_max (q_sa A T R gamma
            (map (\<lambda>s. if s \<in> set (take k states_to_update)
                      then value_of (vi_sweep A T R gamma w) ! s else value_of w ! s) [0..<num_states])
            (states_to_update ! k))"
    unfolding vi_sweep_value [OF wf] by simp
next
  show "value_of (vi_body A T R gamma epsilon w) = value_of (vi_sweep A T R gamma w)"
    by (simp add: vi_body_wf(3) [OF wf] vi_sweep_value [OF wf])
next
  show "heap (vi_body A T R gamma epsilon w) ! length (heap w) = value_of w"
    using wf by (simp add: vi_body_eq)
next
  assume run: "\<not> converged w"
  let ?w1 = "vi_body A T R gamma epsilon w"
  have new: "heap ?w1 ! V w = value_of ?w1"
    by (simp add: value_of_def vi_body_wf(1) [OF wf])
  have old: "heap ?w1 ! length (heap w) = value_of w"
    using wf by (simp add: vi_body_eq)
  have "length (value_of ?w1) = num_states"
    using vi_pass_length [OF wf, where k = 1 and A = A and T = T and R = R and gamma = gamma
        and epsilon = epsilon] len by simp
  from l1_change_states [OF this len, of A] vi_converged_step [OF wf, of A T R gamma epsilon] run
  show "converged ?w1 \<longleftrightarrow>
          fsum A (map (\<lambda>s. \<bar>fsub A (heap ?w1 ! V w ! s) (heap ?w1 ! length (heap w) ! s)\<bar>)
            [0..<num_states]) < epsilon"
    unfolding new old by simp
qed

section \<open>Policy Iteration: improvement, evaluation and the loop\<close>

lemma argmax_scan_spec:
  assumes "best < i" "i = length pre" "pre ! best = b" "\<forall>j<i. pre ! j \<le> b" "\<forall>j<best. pre ! j < b"
  shows "argmax_scan xs i best b < length (pre @ xs) \<and>
         (\<forall>j<length (pre @ xs). (pre @ xs) ! j \<le> (pre @ xs) ! argmax_scan xs i best b) \<and>
         (\<forall>j<argmax_scan xs i best b. (pre @ xs) ! j < (pre @ xs) ! argmax_scan xs i best b)"
  using assms
proof (induction xs arbitrary: pre i best b)
  case Nil
  then show ?case by simp
next
  case (Cons x xs)
  show ?case
  proof (cases "b < x")
    case True
    have "argmax_scan xs (Suc i) i x < length ((pre @ [x]) @ xs) \<and>
         (\<forall>j<length ((pre @ [x]) @ xs). ((pre @ [x]) @ xs) ! j \<le> ((pre @ [x]) @ xs) ! argmax_scan xs (Suc i) i x) \<and>
         (\<forall>j<argmax_scan xs (Suc i) i x. ((pre @ [x]) @ xs) ! j < ((pre @ [x]) @ xs) ! argmax_scan xs (Suc i) i x)"
    proof (rule Cons.IH)
      show "i < Suc i" by simp
      show "Suc i = length (pre @ [x])" using Cons.prems(2) by simp
      show "(pre @ [x]) ! i = x" using Cons.prems(2) by simp
      show "\<forall>j<Suc i. (pre @ [x]) ! j \<le> x"
        using Cons.prems(2,4) True by (auto simp add: nth_append less_Suc_eq)
      show "\<forall>j<i. (pre @ [x]) ! j < x"
        using Cons.prems(2,4) True by (auto simp add: nth_append)
    qed
    with True show ?thesis by simp
  next
    case False
    have "argmax_scan xs (Suc i) best b < length ((pre @ [x]) @ xs) \<and>
         (\<forall>j<length ((pre @ [x]) @ xs). ((pre @ [x]) @ xs) ! j \<le> ((pre @ [x]) @ xs) ! argmax_scan xs (Suc i) best b) \<and>
         (\<forall>j<argmax_scan xs (Suc i) best b. ((pre @ [x]) @ xs) ! j < ((pre @ [x]) @ xs) ! argmax_scan xs (Suc i) best b)"
    proof (rule Cons.IH)
      show "best < Suc i" using Cons.prems(1) by simp
      show "Suc i = length (pre @ [x])" using Cons.prems(2) by simp
      show "(pre @ [x]) ! best = b" using Cons.prems(1,2,3) by (simp add: nth_append)
      show "\<forall>j<Suc i. (pre @ [x]) ! j \<le> b"
        using Cons.prems(2,4) False by (auto simp add: nth_append less_Suc_eq)
      show "\<forall>j<best. (pre @ [x]) ! j < b"
        using Cons.prems(1,2,5) by (auto simp add: nth_append)
    qed
    with False show ?thesis by simp
  qed
qed

lemma np_argmax_spec:
  assumes "xs \<noteq> []"
  shows "np_argmax xs < length xs \<and> (\<forall>j<length xs. xs ! j \<le> xs ! np_argmax xs) \<and>
         (\<forall>j<np_argmax xs. xs ! j < xs ! np_argmax xs)"
proof -
  from assms obtain x ys where xs: "xs = x # ys" by (cases xs) auto
  have "argmax_scan ys 1 0 x < length ([x] @ ys) \<and>
         (\<forall>j<length ([x] @ ys). ([x] @ ys) ! j \<le> ([x] @ ys) ! argmax_scan ys 1 0 x) \<and>
         (\<forall>j<argmax_scan ys 1 0 x. ([x] @ ys) ! j < ([x] @ ys) ! argmax_scan ys 1 0 x)"
    by (rule argmax_scan_spec) simp_all
  then show ?thesis by (simp add: xs np_argmax_def)
qed


lemma fold_setitem:
  assumes "c < length h"
  shows "fold (\<lambda>(state, reward) h1. setitem h1 c state reward) xs h =
           h[c := fold (\<lambda>(state, reward) v. v[state := reward]) xs (h ! c)]"
  using assms
proof (induction xs arbitrary: h)
  case Nil
  then show ?case by simp
next
  case (Cons x xs)
  obtain s r where x: "x = (s, r)" by (cases x)
  have "c < length (setitem h c s r)"
    using Cons.prems by (simp add: setitem_def)
  from Cons.IH [OF this] Cons.prems show ?case
    by (simp add: x setitem_def)
qed

lemma terminal_filled_eval: "terminal_filled v = v[3 := 1, 7 := - 1]"
  by (simp add: terminal_filled_def skip_eval)

lemma terminal_filled_length: "length (terminal_filled v) = length v"
  by (simp add: terminal_filled_eval)

lemma terminal_filled_nth:
  assumes "s < length v"
  shows "terminal_filled v ! s = (case map_of absorbing_states s of Some r \<Rightarrow> r | None \<Rightarrow> v ! s)"
  using assms by (simp add: terminal_filled_eval skip_eval nth_list_update)

lemma policy_improvement_eq:
  assumes "c < length h"
  shows "policy_improvement A h c T = (h[c := terminal_filled (h ! c)], greedy A T (h ! c))"
  using assms by (simp add: policy_improvement_def fold_setitem terminal_filled_def greedy_def Let_def)

lemma pi_improve_eq:
  "pi_improve A T w =
     w\<lparr>heap := heap w @ [terminal_filled (value_of w)], pi_arr := greedy A T (value_of w)\<rparr>"
  by (simp add: pi_improve_def np_copy_def policy_improvement_eq value_of_def)

lemma map2_states:
  assumes "length xs = num_states" "length ys = num_states"
  shows "map2 f xs ys = map (\<lambda>i. f (xs ! i) (ys ! i)) [0..<num_states]"
  using assms by (intro nth_equalityI) simp_all

lemma np_argmax0_nth:
  assumes shT: "shape3 T num_actions num_states num_states" and len: "length v = num_states"
      and s: "s < num_states"
  shows "length (np_argmax0 (expected_value A T v)) = num_states"
    and "np_argmax0 (expected_value A T v) ! s < num_actions"
    and "\<forall>b<num_actions.
           fsum A (map (\<lambda>s'. fmul A (T ! b ! s ! s') (v ! s')) [0..<num_states]) \<le>
           fsum A (map (\<lambda>s'. fmul A (T ! (np_argmax0 (expected_value A T v) ! s) ! s ! s') (v ! s'))
             [0..<num_states])"
    and "\<forall>b<np_argmax0 (expected_value A T v) ! s.
           fsum A (map (\<lambda>s'. fmul A (T ! b ! s ! s') (v ! s')) [0..<num_states]) <
           fsum A (map (\<lambda>s'. fmul A (T ! (np_argmax0 (expected_value A T v) ! s) ! s ! s') (v ! s'))
             [0..<num_states])"
proof -
  let ?M = "expected_value A T v"
  let ?col = "map (\<lambda>Ma. Ma ! s) ?M"
  let ?q = "\<lambda>b. fsum A (map (\<lambda>s'. fmul A (T ! b ! s ! s') (v ! s')) [0..<num_states])"
  have lenT: "length T = num_actions"
    using shT by (simp add: shape3_def)
  then have "T \<noteq> []" by (auto simp add: num_eval)
  then have hd: "hd ?M = map (\<lambda>row. fsum A (map2 (fmul A) row v)) (T ! 0)"
    by (simp add: expected_value_def hd_map hd_conv_nth)
  have pos: "0 < num_actions" by (simp add: num_eval)
  have len0: "length (T ! 0) = num_states"
    using shT pos by (simp add: shape3_def list_all_length)
  show L: "length (np_argmax0 ?M) = num_states"
    by (simp add: np_argmax0_def hd len0)
  have nth: "np_argmax0 ?M ! s = np_argmax ?col"
    using s by (simp add: np_argmax0_def hd len0)
  have col: "?col ! b = ?q b" if "b < num_actions" for b
  proof -
    from shape3_nth [OF shT that s] have "?col ! b = fsum A (map2 (fmul A) (T ! b ! s) v)"
      by (simp add: expected_value_def)
    also have "map2 (fmul A) (T ! b ! s) v = map (\<lambda>s'. fmul A (T ! b ! s ! s') (v ! s')) [0..<num_states]"
      by (rule map2_states) (simp_all add: shape3_nth(3) [OF shT that s] len)
    finally show ?thesis .
  qed
  have ne: "?col \<noteq> []"
    using \<open>T \<noteq> []\<close> by (simp add: expected_value_def)
  have lc: "length ?col = num_actions"
    by (simp add: expected_value_def lenT)
  from np_argmax_spec [OF ne] have spec: "np_argmax ?col < num_actions"
    "\<forall>j<num_actions. ?col ! j \<le> ?col ! np_argmax ?col"
    "\<forall>j<np_argmax ?col. ?col ! j < ?col ! np_argmax ?col"
    unfolding lc by blast+
  from spec(1) show "np_argmax0 ?M ! s < num_actions"
    by (simp only: nth)
  show "\<forall>b<num_actions. ?q b \<le> ?q (np_argmax0 ?M ! s)"
  proof (intro allI impI)
    fix b assume bA: "b < num_actions"
    with spec(2) have "?col ! b \<le> ?col ! np_argmax ?col" by blast
    then show "?q b \<le> ?q (np_argmax0 ?M ! s)"
      unfolding nth col [OF bA] col [OF spec(1)] .
  qed
  show "\<forall>b<np_argmax0 ?M ! s. ?q b < ?q (np_argmax0 ?M ! s)"
  proof (intro allI impI)
    fix b assume "b < np_argmax0 ?M ! s"
    then have b: "b < np_argmax ?col" by (simp only: nth)
    with spec(1) have bA: "b < num_actions" by simp
    from spec(3) b have "?col ! b < ?col ! np_argmax ?col" by blast
    then show "?q b < ?q (np_argmax0 ?M ! s)"
      unfolding nth col [OF bA] col [OF spec(1)] .
  qed
qed

text \<open>
  Claim C9. Take the statement \<^verbatim>\<open>pi = policy_improvement(V.copy(), transitions)\<close> in a
  state where \<^verbatim>\<open>V\<close> has \<^verbatim>\<open>num_states\<close> entries and the tensor has its shape. There is an
  array \<open>v'\<close> that equals \<^verbatim>\<open>V\<close> except that each absorbing state's entry is its terminal
  reward; the returned policy has, for each state \<open>s\<close>, the first action that maximises
  the sum over \<open>s'\<close> of \<open>T[a, s, s'] * v'[s']\<close> as the call computes it, in whatever way
  its products and sums round (no action has a larger sum, every earlier action has a
  smaller one); and the call leaves \<^verbatim>\<open>V\<close> and every array that existed before it
  unchanged: \<open>v'\<close> is the content of the fresh copy only.
\<close>

theorem policy_improvement_greedy_on_copy:
  assumes wf: "V w < length (heap w)" and len: "length (value_of w) = num_states"
      and shT: "shape3 T num_actions num_states num_states"
  shows "\<exists>v'. length v' = num_states \<and>
           (\<forall>s<num_states. v' ! s =
              (case map_of absorbing_states s of Some r \<Rightarrow> r | None \<Rightarrow> value_of w ! s)) \<and>
           length (pi_arr (pi_improve A T w)) = num_states \<and>
           (\<forall>s<num_states.
              pi_arr (pi_improve A T w) ! s < num_actions \<and>
              (\<forall>b<num_actions.
                 fsum A (map (\<lambda>s'. fmul A (T ! b ! s ! s') (v' ! s')) [0..<num_states]) \<le>
                 fsum A (map (\<lambda>s'. fmul A (T ! (pi_arr (pi_improve A T w) ! s) ! s ! s') (v' ! s'))
                   [0..<num_states])) \<and>
              (\<forall>b<pi_arr (pi_improve A T w) ! s.
                 fsum A (map (\<lambda>s'. fmul A (T ! b ! s ! s') (v' ! s')) [0..<num_states]) <
                 fsum A (map (\<lambda>s'. fmul A (T ! (pi_arr (pi_improve A T w) ! s) ! s ! s') (v' ! s'))
                   [0..<num_states]))) \<and>
           V (pi_improve A T w) = V w \<and> value_of (pi_improve A T w) = value_of w \<and>
           (\<forall>a<length (heap w). heap (pi_improve A T w) ! a = heap w ! a) \<and>
           heap (pi_improve A T w) ! length (heap w) = v'"
proof (intro exI [of _ "terminal_filled (value_of w)"] conjI allI impI)
  let ?v = "terminal_filled (value_of w)"
  let ?q = "\<lambda>b s. fsum A (map (\<lambda>s'. fmul A (T ! b ! s ! s') (?v ! s')) [0..<num_states])"
  have lv: "length ?v = num_states"
    by (simp add: terminal_filled_length len)
  show "length ?v = num_states" by (rule lv)
  show "length (pi_arr (pi_improve A T w)) = num_states"
    using np_argmax0_nth(1) [OF shT lv, of 0] by (simp add: pi_improve_eq greedy_def num_eval)
  show "V (pi_improve A T w) = V w"
    by (simp add: pi_improve_eq)
  show "value_of (pi_improve A T w) = value_of w"
    using wf by (simp add: pi_improve_eq value_of_def nth_append)
  show "heap (pi_improve A T w) ! length (heap w) = ?v"
    by (simp add: pi_improve_eq)
  show "heap (pi_improve A T w) ! a = heap w ! a" if "a < length (heap w)" for a
    using that by (simp add: pi_improve_eq nth_append)
  show "?v ! s = (case map_of absorbing_states s of Some r \<Rightarrow> r | None \<Rightarrow> value_of w ! s)"
    if "s < num_states" for s
    using that len by (simp add: terminal_filled_nth)
  show "pi_arr (pi_improve A T w) ! s < num_actions" if "s < num_states" for s
    using np_argmax0_nth(2) [OF shT lv that] by (simp add: pi_improve_eq greedy_def)
  show "?q b s \<le> ?q (pi_arr (pi_improve A T w) ! s) s"
    if "s < num_states" "b < num_actions" for s b
    using np_argmax0_nth(3) [OF shT lv that(1)] that(2) by (simp add: pi_improve_eq greedy_def)
  show "?q b s < ?q (pi_arr (pi_improve A T w) ! s) s"
    if "s < num_states" "b < pi_arr (pi_improve A T w) ! s" for s b
    using np_argmax0_nth(4) [OF shT lv that(1)] that(2) by (simp add: pi_improve_eq greedy_def)
qed

theorem policy_improvement_greedy_on_copy_witness:
  "V (pi_start (replicate num_states (1 / 2)) (replicate num_states 0)) < length (heap (pi_start (replicate num_states (1 / 2)) (replicate num_states 0))) \<and>
   length (value_of (pi_start (replicate num_states (1 / 2)) (replicate num_states 0))) = num_states \<and>
   shape3 transitions num_actions num_states num_states \<and>
   value_of (pi_start (replicate num_states (1 / 2)) (replicate num_states 0)) ! 3 = 0 \<and>
   value_of (pi_improve exact transitions (pi_start (replicate num_states (1 / 2)) (replicate num_states 0))) ! 3 = 0 \<and>
   heap (pi_improve exact transitions (pi_start (replicate num_states (1 / 2)) (replicate num_states 0))) ! length (heap (pi_start (replicate num_states (1 / 2)) (replicate num_states 0))) ! 3 = 1 \<and>
   heap (pi_improve exact transitions (pi_start (replicate num_states (1 / 2)) (replicate num_states 0))) ! length (heap (pi_start (replicate num_states (1 / 2)) (replicate num_states 0))) ! 2 = 1 / 2 \<and>
   pi_arr (pi_improve exact transitions (pi_start (replicate num_states (1 / 2)) (replicate num_states 0))) ! 2 < num_actions \<and>
   pi_arr (pi_improve exact transitions (pi_start (replicate num_states (1 / 2)) (replicate num_states 0))) ! 2 = 2"
proof -
  let ?w = "(pi_start (replicate num_states (1 / 2)) (replicate num_states 0))"
  have wf: "V ?w < length (heap ?w)"
    by (simp add: pi_start_def)
  have len: "length (value_of ?w) = num_states"
    by (simp add: pi_start_def value_of_def init_V_length)
  have val: "value_of ?w = [1 / 2, 1 / 2, 1 / 2, 0, 1 / 2, 0, 1 / 2, 0, 1 / 2, 1 / 2, 1 / 2, 1 / 2]"
    by (simp add: pi_start_def value_of_def init_V_def skip_states_eval num_eval eval_nat_numeral)
  have at3: "value_of ?w ! 3 = 0" and at2: "value_of ?w ! 2 = 1 / 2"
    unfolding val by simp_all
  have s3: "3 < num_states" and s2: "2 < num_states"
    by (simp_all add: num_eval)
  have absorb: "map_of absorbing_states 3 = Some 1" "map_of absorbing_states 2 = None"
    by (simp_all add: skip_eval)
  from policy_improvement_greedy_on_copy [OF wf len shape3_transitions, where A = exact]
  obtain v' where v': "\<forall>s<num_states. v' ! s =
        (case map_of absorbing_states s of Some r \<Rightarrow> r | None \<Rightarrow> value_of ?w ! s)"
      "\<forall>s<num_states. pi_arr (pi_improve exact transitions ?w) ! s < num_actions"
      "value_of (pi_improve exact transitions ?w) = value_of ?w"
      "heap (pi_improve exact transitions ?w) ! length (heap ?w) = v'"
    by blast
  from v'(1) s3 absorb(1) have c3: "v' ! 3 = 1" by simp
  from v'(1) s2 absorb(2) at2 have c2: "v' ! 2 = 1 / 2" by simp
  from v'(2) s2 have act: "pi_arr (pi_improve exact transitions ?w) ! 2 < num_actions" by blast
  have kept: "value_of (pi_improve exact transitions ?w) ! 3 = 0"
    unfolding v'(3) by (rule at3)
  have fresh3: "heap (pi_improve exact transitions ?w) ! length (heap ?w) ! 3 = 1"
    unfolding v'(4) by (rule c3)
  have fresh2: "heap (pi_improve exact transitions ?w) ! length (heap ?w) ! 2 = 1 / 2"
    unfolding v'(4) by (rule c2)
  have "pi_arr (pi_improve exact transitions ?w) = greedy exact transitions (value_of ?w)"
    by (simp add: pi_improve_eq)
  also have "\<dots> = [0, 0, 2, 0, 0, 0, 0, 0, 0, 0, 0, 3]"
    unfolding val
    by (simp add: greedy_def terminal_filled_eval np_argmax0_def np_argmax_def expected_value_def
        exact_simps transitions_eval upt12)
  finally have pol: "pi_arr (pi_improve exact transitions ?w) ! 2 = 2"
    by simp
  show ?thesis
    by (intro conjI wf len shape3_transitions at3 kept fresh3 fresh2 act pol)
qed

lemma pi_evaluate_eq:
  "pi_evaluate A T R gamma policy w s =
     w\<lparr>heap := (heap w)[V w := policy_sweep A T R gamma policy [s] (value_of w)]\<rparr>"
  by (simp add: pi_evaluate_def setitem_def policy_sweep_def value_of_def Let_def)

lemma pi_step_facts:
  assumes "V w < length (heap w)"
  shows "V (pi_step A T R gamma policy w s) = V w"
    and "V w < length (heap (pi_step A T R gamma policy w s))"
    and "value_of (pi_step A T R gamma policy w s) = policy_sweep A T R gamma policy [s] (value_of w)"
    and "pi_arr (pi_step A T R gamma policy w s) = greedy A T (value_of (pi_step A T R gamma policy w s))"
    and "converged (pi_step A T R gamma policy w s) = converged w"
    and "iterations (pi_step A T R gamma policy w s) = iterations w"
  using assms
  by (simp_all add: pi_step_def pi_improve_eq pi_evaluate_eq value_of_def nth_append)

lemma policy_sweep_Cons:
  "policy_sweep A T R gamma policy (s # sts) v =
     policy_sweep A T R gamma policy sts (policy_sweep A T R gamma policy [s] v)"
  by (simp add: policy_sweep_def)

lemma pi_fold_facts:
  assumes "V w < length (heap w)"
  shows "V (fold (\<lambda>state w'. pi_step A T R gamma policy w' state) sts w) = V w \<and>
         V w < length (heap (fold (\<lambda>state w'. pi_step A T R gamma policy w' state) sts w)) \<and>
         value_of (fold (\<lambda>state w'. pi_step A T R gamma policy w' state) sts w) =
           policy_sweep A T R gamma policy sts (value_of w) \<and>
         pi_arr (fold (\<lambda>state w'. pi_step A T R gamma policy w' state) sts w) =
           (if sts = [] then pi_arr w else greedy A T (policy_sweep A T R gamma policy sts (value_of w))) \<and>
         converged (fold (\<lambda>state w'. pi_step A T R gamma policy w' state) sts w) = converged w \<and>
         iterations (fold (\<lambda>state w'. pi_step A T R gamma policy w' state) sts w) = iterations w"
  using assms
proof (induction sts arbitrary: w)
  case Nil
  then show ?case by (simp add: policy_sweep_def)
next
  case (Cons s sts)
  let ?w1 = "pi_step A T R gamma policy w s"
  note f = pi_step_facts [OF Cons.prems, of A T R gamma policy s]
  have wf1: "V ?w1 < length (heap ?w1)"
    using f(1,2) by simp
  from Cons.IH [OF wf1] f show ?case
    by (cases sts) (simp_all add: policy_sweep_Cons policy_sweep_def)
qed




section \<open>Value Iteration against a fixed point of the Bellman sweep\<close>
























section \<open>Runs of both engines on the notebook's tensors\<close>


lemma init_V_eval:
  "init_V [x0, x1, x2, 0, x4, 0, x6, 0, x8, x9, x10, x11] =
     [x0, x1, x2, 0, x4, 0, x6, 0, x8, x9, x10, x11]"
  by (simp add: init_V_def skip_states_eval)

lemma init_V_half:
  "init_V (replicate num_states (1 / 2)) = [1 / 2, 1 / 2, 1 / 2, 0, 1 / 2, 0, 1 / 2, 0, 1 / 2, 1 / 2, 1 / 2, 1 / 2]"
  by (simp add: init_V_def skip_states_eval num_eval eval_nat_numeral)

lemma vi_sweep_near:
  "bellman_sweep exact transitions rewards (99 / 100) states_to_update
     [884143 / 1000000, 462527 / 500000, 480993 / 500000, 0, 848181 / 1000000, 0,
      714643 / 1000000, 0, 101043 / 125000, 773327 / 1000000, 736099 / 1000000, 258041 / 500000] =
     [221035711 / 250000000, 231263401 / 250000000, 961986271 / 1000000000, 0,
      53011310653 / 62500000000, 0, 44665173977 / 62500000000, 0,
      12630386837419 / 15625000000000, 1510405847685731 / 1953125000000000,
      718846727968283851 / 976562500000000000,
      62998360004406976249 / 122070312500000000000]"
  by (simp add: bellman_sweep_def states_to_update_eval q_sa_def np_max_def exact_simps
      transitions_eval rewards_eval)














text \<open>
  Two passes of the Value Iteration loop on the notebook's tensors with gamma 0.99 and
  epsilon 1e-5, in exact arithmetic. From the values that the notebook prints the pass
  changes \<^verbatim>\<open>V\<close> by about 3.2e-6 in sum, sets \<^verbatim>\<open>converged\<close>, and the loop returns after
  it. From the all-zero array the pass changes \<^verbatim>\<open>V\<close> by about 1.98 in sum and does not
  set \<^verbatim>\<open>converged\<close>. With epsilon 0 the loop does not return.
\<close>

lemma vi_sweep_zero:
  "bellman_sweep exact transitions rewards (99 / 100) states_to_update [0, 0, 0, 0, 0, 0, 0, 0, 0, 0, 0, 0] =
     [- (1 / 50), - (1 / 50), 199 / 250, 0, - (1 / 50), 0, 32027 / 62500, 0,
      - (1 / 50), - (1 / 50), 11995817 / 31250000, 726648383 / 3906250000]"
  by (simp add: bellman_sweep_def states_to_update_eval q_sa_def np_max_def exact_simps
      transitions_eval rewards_eval)

lemma init_V_zero_start:
  "init_V (replicate num_states 0) = [0, 0, 0, 0, 0, 0, 0, 0, 0, 0, 0, 0]"
  by (simp add: init_V_def skip_states_eval num_eval eval_nat_numeral)

lemma vi_pass_near:
  "V (vi_start [884143 / 1000000, 462527 / 500000, 480993 / 500000, 0, 848181 / 1000000, 0,
      714643 / 1000000, 0, 101043 / 125000, 773327 / 1000000, 736099 / 1000000, 258041 / 500000]) < length (heap (vi_start [884143 / 1000000, 462527 / 500000, 480993 / 500000, 0, 848181 / 1000000, 0,
      714643 / 1000000, 0, 101043 / 125000, 773327 / 1000000, 736099 / 1000000, 258041 / 500000]))"
  "length (value_of (vi_start [884143 / 1000000, 462527 / 500000, 480993 / 500000, 0, 848181 / 1000000, 0,
      714643 / 1000000, 0, 101043 / 125000, 773327 / 1000000, 736099 / 1000000, 258041 / 500000])) = num_states"
  "\<not> converged (vi_start [884143 / 1000000, 462527 / 500000, 480993 / 500000, 0, 848181 / 1000000, 0,
      714643 / 1000000, 0, 101043 / 125000, 773327 / 1000000, 736099 / 1000000, 258041 / 500000])"
  "value_of (vi_start [884143 / 1000000, 462527 / 500000, 480993 / 500000, 0, 848181 / 1000000, 0,
      714643 / 1000000, 0, 101043 / 125000, 773327 / 1000000, 736099 / 1000000, 258041 / 500000]) =
     [884143 / 1000000, 462527 / 500000, 480993 / 500000, 0, 848181 / 1000000, 0,
      714643 / 1000000, 0, 101043 / 125000, 773327 / 1000000, 736099 / 1000000, 258041 / 500000]"
  "value_of (vi_body exact transitions rewards (99 / 100) epsilon (vi_start [884143 / 1000000, 462527 / 500000, 480993 / 500000, 0, 848181 / 1000000, 0,
      714643 / 1000000, 0, 101043 / 125000, 773327 / 1000000, 736099 / 1000000, 258041 / 500000])) =
     [221035711 / 250000000, 231263401 / 250000000, 961986271 / 1000000000, 0,
      53011310653 / 62500000000, 0, 44665173977 / 62500000000, 0,
      12630386837419 / 15625000000000, 1510405847685731 / 1953125000000000,
      718846727968283851 / 976562500000000000,
      62998360004406976249 / 122070312500000000000]"
proof -
  let ?w = "vi_start [884143 / 1000000, 462527 / 500000, 480993 / 500000, 0, 848181 / 1000000, 0,
      714643 / 1000000, 0, 101043 / 125000, 773327 / 1000000, 736099 / 1000000, 258041 / 500000]"
  show wf: "V ?w < length (heap ?w)" and "\<not> converged ?w"
    by (simp_all add: vi_start_def)
  show val: "value_of ?w = [884143 / 1000000, 462527 / 500000, 480993 / 500000, 0, 848181 / 1000000, 0,
      714643 / 1000000, 0, 101043 / 125000, 773327 / 1000000, 736099 / 1000000, 258041 / 500000]"
    by (simp add: vi_start_def value_of_def init_V_eval)
  show "length (value_of ?w) = num_states"
    unfolding val by (simp add: num_eval)
  show "value_of (vi_body exact transitions rewards (99 / 100) epsilon ?w) =
     [221035711 / 250000000, 231263401 / 250000000, 961986271 / 1000000000, 0,
      53011310653 / 62500000000, 0, 44665173977 / 62500000000, 0,
      12630386837419 / 15625000000000, 1510405847685731 / 1953125000000000,
      718846727968283851 / 976562500000000000,
      62998360004406976249 / 122070312500000000000]"
    by (simp only: vi_body_wf(3) [OF wf] val vi_sweep_near)
qed

lemma vi_pass_zero:
  "V (vi_start (replicate num_states 0)) < length (heap (vi_start (replicate num_states 0)))"
  "length (value_of (vi_start (replicate num_states 0))) = num_states"
  "\<not> converged (vi_start (replicate num_states 0))"
  "value_of (vi_start (replicate num_states 0)) = [0, 0, 0, 0, 0, 0, 0, 0, 0, 0, 0, 0]"
  "value_of (vi_body exact transitions rewards (99 / 100) epsilon (vi_start (replicate num_states 0))) =
     [- (1 / 50), - (1 / 50), 199 / 250, 0, - (1 / 50), 0, 32027 / 62500, 0,
      - (1 / 50), - (1 / 50), 11995817 / 31250000, 726648383 / 3906250000]"
proof -
  let ?w = "vi_start (replicate num_states 0)"
  show wf: "V ?w < length (heap ?w)" and "\<not> converged ?w"
    by (simp_all add: vi_start_def)
  show val: "value_of ?w = [0, 0, 0, 0, 0, 0, 0, 0, 0, 0, 0, 0]"
    by (simp add: vi_start_def value_of_def init_V_zero_start)
  show "length (value_of ?w) = num_states"
    unfolding val by (simp add: num_eval)
  show "value_of (vi_body exact transitions rewards (99 / 100) epsilon ?w) =
     [- (1 / 50), - (1 / 50), 199 / 250, 0, - (1 / 50), 0, 32027 / 62500, 0,
      - (1 / 50), - (1 / 50), 11995817 / 31250000, 726648383 / 3906250000]"
    by (simp only: vi_body_wf(3) [OF wf] val vi_sweep_zero)
qed

lemma change_near:
  "sum_list (map (\<lambda>s. \<bar>[221035711 / 250000000, 231263401 / 250000000, 961986271 / 1000000000, 0,
      53011310653 / 62500000000, 0, 44665173977 / 62500000000, 0,
      12630386837419 / 15625000000000, 1510405847685731 / 1953125000000000,
      718846727968283851 / 976562500000000000,
      62998360004406976249 / 122070312500000000000] ! s -
      [884143 / 1000000, 462527 / 500000, 480993 / 500000, 0, 848181 / 1000000, 0,
      714643 / 1000000, 0, 101043 / 125000, 773327 / 1000000, 736099 / 1000000, 258041 / 500000] ! s\<bar>) [0..<num_states]) =
   (98728196255031 / 30517578125000000000 :: real)"
  by (simp add: num_eval upt12)

lemma change_zero:
  "sum_list (map (\<lambda>s. \<bar>[- (1 / 50), - (1 / 50), 199 / 250, 0, - (1 / 50), 0, 32027 / 62500, 0,
      - (1 / 50), - (1 / 50), 11995817 / 31250000, 726648383 / 3906250000] ! s -
      [0, 0, 0, 0, 0, 0, 0, 0, 0, 0, 0, 0] ! s\<bar>) [0..<num_states]) =
   (482988313 / 244140625 :: real)"
  by (simp add: num_eval upt12)

theorem vi_stops_on_small_change_witness:
  "shape3 transitions num_actions num_states num_states \<and>
   shape3 rewards num_actions num_states num_states \<and>
   V (vi_start [884143 / 1000000, 462527 / 500000, 480993 / 500000, 0, 848181 / 1000000, 0,
      714643 / 1000000, 0, 101043 / 125000, 773327 / 1000000, 736099 / 1000000, 258041 / 500000]) < length (heap (vi_start [884143 / 1000000, 462527 / 500000, 480993 / 500000, 0, 848181 / 1000000, 0,
      714643 / 1000000, 0, 101043 / 125000, 773327 / 1000000, 736099 / 1000000, 258041 / 500000])) \<and>
   length (value_of (vi_start [884143 / 1000000, 462527 / 500000, 480993 / 500000, 0, 848181 / 1000000, 0,
      714643 / 1000000, 0, 101043 / 125000, 773327 / 1000000, 736099 / 1000000, 258041 / 500000])) = num_states \<and>
   \<not> converged (vi_start [884143 / 1000000, 462527 / 500000, 480993 / 500000, 0, 848181 / 1000000, 0,
      714643 / 1000000, 0, 101043 / 125000, 773327 / 1000000, 736099 / 1000000, 258041 / 500000]) \<and>
   sum_list (map (\<lambda>s. \<bar>value_of (vi_body exact transitions rewards (99 / 100) (1 / 100000) (vi_start [884143 / 1000000, 462527 / 500000, 480993 / 500000, 0, 848181 / 1000000, 0,
      714643 / 1000000, 0, 101043 / 125000, 773327 / 1000000, 736099 / 1000000, 258041 / 500000])) ! s -
      value_of (vi_start [884143 / 1000000, 462527 / 500000, 480993 / 500000, 0, 848181 / 1000000, 0,
      714643 / 1000000, 0, 101043 / 125000, 773327 / 1000000, 736099 / 1000000, 258041 / 500000]) ! s\<bar>) [0..<num_states]) = 98728196255031 / 30517578125000000000 \<and>
   converged (vi_body exact transitions rewards (99 / 100) (1 / 100000) (vi_start [884143 / 1000000, 462527 / 500000, 480993 / 500000, 0, 848181 / 1000000, 0,
      714643 / 1000000, 0, 101043 / 125000, 773327 / 1000000, 736099 / 1000000, 258041 / 500000])) \<and>
   vi_loop exact transitions rewards (99 / 100) (1 / 100000) (vi_start [884143 / 1000000, 462527 / 500000, 480993 / 500000, 0, 848181 / 1000000, 0,
      714643 / 1000000, 0, 101043 / 125000, 773327 / 1000000, 736099 / 1000000, 258041 / 500000]) =
     Some (vi_body exact transitions rewards (99 / 100) (1 / 100000) (vi_start [884143 / 1000000, 462527 / 500000, 480993 / 500000, 0, 848181 / 1000000, 0,
      714643 / 1000000, 0, 101043 / 125000, 773327 / 1000000, 736099 / 1000000, 258041 / 500000])) \<and>
   V (vi_start (replicate num_states 0)) < length (heap (vi_start (replicate num_states 0))) \<and>
   length (value_of (vi_start (replicate num_states 0))) = num_states \<and>
   \<not> converged (vi_start (replicate num_states 0)) \<and>
   sum_list (map (\<lambda>s. \<bar>value_of (vi_body exact transitions rewards (99 / 100) (1 / 100000) (vi_start (replicate num_states 0))) ! s -
      value_of (vi_start (replicate num_states 0)) ! s\<bar>) [0..<num_states]) = 482988313 / 244140625 \<and>
   \<not> converged (vi_body exact transitions rewards (99 / 100) (1 / 100000) (vi_start (replicate num_states 0))) \<and>
   (\<nexists>xs. list_all (\<lambda>x. 0 \<le> x) xs \<and> fsum exact xs < 0) \<and> (0::real) \<le> 0 \<and>
   vi_loop exact transitions rewards (99 / 100) 0 (vi_start (replicate num_states 0)) = None"
proof -
  let ?w = "vi_start [884143 / 1000000, 462527 / 500000, 480993 / 500000, 0, 848181 / 1000000, 0,
      714643 / 1000000, 0, 101043 / 125000, 773327 / 1000000, 736099 / 1000000, 258041 / 500000]"
  let ?z = "vi_start (replicate num_states 0)"
  let ?body = "vi_body exact transitions rewards (99 / 100) (1 / 100000)"
  note near = vi_pass_near(1-4) vi_pass_near(5) [where epsilon = "1 / 100000"]
  note zero = vi_pass_zero(1-4) vi_pass_zero(5) [where epsilon = "1 / 100000"]
  have chg: "sum_list (map (\<lambda>s. \<bar>value_of (?body ?w) ! s - value_of ?w ! s\<bar>) [0..<num_states]) =
      98728196255031 / 30517578125000000000"
    unfolding near(4,5) by (rule change_near)
  have chz: "sum_list (map (\<lambda>s. \<bar>value_of (?body ?z) ! s - value_of ?z ! s\<bar>) [0..<num_states]) =
      482988313 / 244140625"
    unfolding zero(4,5) by (rule change_zero)
  have nonneg: "\<forall>xs. (\<forall>x\<in>set xs. 0 \<le> x) \<longrightarrow> 0 \<le> fsum exact xs"
    by (simp add: exact_simps sum_list_nonneg)
  note stop = vi_stops_on_small_change [OF shape3_transitions shape3_rewards near(1,2,3),
      where A = exact and gamma = "99 / 100" and epsilon = "1 / 100000"]
  note go_on = vi_stops_on_small_change [OF shape3_transitions shape3_rewards zero(1,2,3),
      where A = exact and gamma = "99 / 100" and epsilon = "1 / 100000"]
  note never = vi_stops_on_small_change [OF shape3_transitions shape3_rewards zero(1,2,3),
      where A = exact and gamma = "99 / 100" and epsilon = 0]
  from stop [THEN conjunct1] chg have conv: "converged (?body ?w)"
    by (simp add: exact_simps)
  have "\<exists>n. ?body ?w = (?body ^^ Suc n) ?w \<and>
      fsum exact (map (\<lambda>s. \<bar>fsub exact (value_of ((?body ^^ Suc n) ?w) ! s)
                             (value_of ((?body ^^ n) ?w) ! s)\<bar>) [0..<num_states]) < 1 / 100000 \<and>
      (\<forall>j<n. \<not> fsum exact (map (\<lambda>s. \<bar>fsub exact (value_of ((?body ^^ Suc j) ?w) ! s)
                             (value_of ((?body ^^ j) ?w) ! s)\<bar>) [0..<num_states]) < 1 / 100000)"
    using chg by (intro exI [of _ 0]) (simp add: exact_simps)
  with stop [THEN conjunct2, THEN conjunct1] have loop: "vi_loop exact transitions rewards (99 / 100) (1 / 100000) ?w = Some (?body ?w)"
    by blast
  from go_on [THEN conjunct1] chz have not_conv: "\<not> converged (?body ?z)"
    by (simp add: exact_simps)
  from never [THEN conjunct2, THEN conjunct2] nonneg
  have none: "vi_loop exact transitions rewards (99 / 100) 0 ?z = None"
    by simp
  have le: "(0::real) \<le> 0" by simp
  from nonneg have never_neg: "\<nexists>xs. list_all (\<lambda>x. 0 \<le> x) xs \<and> fsum exact xs < 0"
    unfolding list_all_iff by (meson not_le)
  show ?thesis
    by (intro conjI shape3_transitions shape3_rewards near(1,2,3) zero(1,2,3) chg chz conv loop
        not_conv never_neg le none)
qed

text \<open>
  One sweep of Value Iteration from the all-zero array. State 6 is the fifth state
  updated; its new value 0.512 is the backup over the array that already holds the new
  values of states 0, 1, 2 and 4, while the backup over the all-zero array is -0.02. In
  the pass from the values that the notebook prints, the store holds the swept array
  behind \<^verbatim>\<open>V\<close> and the array as it was behind \<^verbatim>\<open>V_\<close>, their summed absolute difference
  is about 3.2e-6, and \<^verbatim>\<open>converged\<close> is set.
\<close>

lemma backup_zero_6:
  "np_max (q_sa exact transitions rewards (99 / 100) [0, 0, 0, 0, 0, 0, 0, 0, 0, 0, 0, 0] 6) = - (1 / 50)"
  by (simp add: q_sa_def np_max_def exact_simps transitions_eval rewards_eval)

lemma backup_mixed_6:
  "np_max (q_sa exact transitions rewards (99 / 100)
     [- (1 / 50), - (1 / 50), 199 / 250, 0, - (1 / 50), 0, 0, 0, 0, 0, 0, 0] 6) = 32027 / 62500"
  by (simp add: q_sa_def np_max_def exact_simps transitions_eval rewards_eval)

theorem vi_sweep_in_place_witness:
  "shape3 transitions num_actions num_states num_states \<and>
   shape3 rewards num_actions num_states num_states \<and>
   V (vi_start (replicate num_states 0)) < length (heap (vi_start (replicate num_states 0))) \<and>
   length (value_of (vi_start (replicate num_states 0))) = num_states \<and>
   4 < length states_to_update \<and> states_to_update ! 4 = 6 \<and>
   value_of (vi_sweep exact transitions rewards (99 / 100) (vi_start (replicate num_states 0))) ! 6 =
     np_max (q_sa exact transitions rewards (99 / 100)
       [- (1 / 50), - (1 / 50), 199 / 250, 0, - (1 / 50), 0, 0, 0, 0, 0, 0, 0] 6) \<and>
   np_max (q_sa exact transitions rewards (99 / 100)
       [- (1 / 50), - (1 / 50), 199 / 250, 0, - (1 / 50), 0, 0, 0, 0, 0, 0, 0] 6) = 32027 / 62500 \<and>
   np_max (q_sa exact transitions rewards (99 / 100) (value_of (vi_start (replicate num_states 0))) 6) = - (1 / 50) \<and>
   V (vi_start [884143 / 1000000, 462527 / 500000, 480993 / 500000, 0, 848181 / 1000000, 0,
      714643 / 1000000, 0, 101043 / 125000, 773327 / 1000000, 736099 / 1000000, 258041 / 500000]) < length (heap (vi_start [884143 / 1000000, 462527 / 500000, 480993 / 500000, 0, 848181 / 1000000, 0,
      714643 / 1000000, 0, 101043 / 125000, 773327 / 1000000, 736099 / 1000000, 258041 / 500000])) \<and>
   length (value_of (vi_start [884143 / 1000000, 462527 / 500000, 480993 / 500000, 0, 848181 / 1000000, 0,
      714643 / 1000000, 0, 101043 / 125000, 773327 / 1000000, 736099 / 1000000, 258041 / 500000])) = num_states \<and>
   \<not> converged (vi_start [884143 / 1000000, 462527 / 500000, 480993 / 500000, 0, 848181 / 1000000, 0,
      714643 / 1000000, 0, 101043 / 125000, 773327 / 1000000, 736099 / 1000000, 258041 / 500000]) \<and>
   heap (vi_body exact transitions rewards (99 / 100) (1 / 100000) (vi_start [884143 / 1000000, 462527 / 500000, 480993 / 500000, 0, 848181 / 1000000, 0,
      714643 / 1000000, 0, 101043 / 125000, 773327 / 1000000, 736099 / 1000000, 258041 / 500000])) ! V (vi_start [884143 / 1000000, 462527 / 500000, 480993 / 500000, 0, 848181 / 1000000, 0,
      714643 / 1000000, 0, 101043 / 125000, 773327 / 1000000, 736099 / 1000000, 258041 / 500000]) =
     [221035711 / 250000000, 231263401 / 250000000, 961986271 / 1000000000, 0,
      53011310653 / 62500000000, 0, 44665173977 / 62500000000, 0,
      12630386837419 / 15625000000000, 1510405847685731 / 1953125000000000,
      718846727968283851 / 976562500000000000,
      62998360004406976249 / 122070312500000000000] \<and>
   heap (vi_body exact transitions rewards (99 / 100) (1 / 100000) (vi_start [884143 / 1000000, 462527 / 500000, 480993 / 500000, 0, 848181 / 1000000, 0,
      714643 / 1000000, 0, 101043 / 125000, 773327 / 1000000, 736099 / 1000000, 258041 / 500000])) ! length (heap (vi_start [884143 / 1000000, 462527 / 500000, 480993 / 500000, 0, 848181 / 1000000, 0,
      714643 / 1000000, 0, 101043 / 125000, 773327 / 1000000, 736099 / 1000000, 258041 / 500000])) =
     [884143 / 1000000, 462527 / 500000, 480993 / 500000, 0, 848181 / 1000000, 0,
      714643 / 1000000, 0, 101043 / 125000, 773327 / 1000000, 736099 / 1000000, 258041 / 500000] \<and>
   sum_list (map (\<lambda>s. \<bar>[221035711 / 250000000, 231263401 / 250000000, 961986271 / 1000000000, 0,
      53011310653 / 62500000000, 0, 44665173977 / 62500000000, 0,
      12630386837419 / 15625000000000, 1510405847685731 / 1953125000000000,
      718846727968283851 / 976562500000000000,
      62998360004406976249 / 122070312500000000000] ! s -
      [884143 / 1000000, 462527 / 500000, 480993 / 500000, 0, 848181 / 1000000, 0,
      714643 / 1000000, 0, 101043 / 125000, 773327 / 1000000, 736099 / 1000000, 258041 / 500000] ! s\<bar>) [0..<num_states]) =
     (98728196255031 / 30517578125000000000 :: real) \<and>
   converged (vi_body exact transitions rewards (99 / 100) (1 / 100000) (vi_start [884143 / 1000000, 462527 / 500000, 480993 / 500000, 0, 848181 / 1000000, 0,
      714643 / 1000000, 0, 101043 / 125000, 773327 / 1000000, 736099 / 1000000, 258041 / 500000]))"
proof -
  let ?w = "vi_start (replicate num_states 0)"
  let ?n = "vi_start [884143 / 1000000, 462527 / 500000, 480993 / 500000, 0, 848181 / 1000000, 0,
      714643 / 1000000, 0, 101043 / 125000, 773327 / 1000000, 736099 / 1000000, 258041 / 500000]"
  let ?body = "vi_body exact transitions rewards (99 / 100) (1 / 100000)"
  note zero = vi_pass_zero(1-4) vi_pass_zero(5) [where epsilon = "1 / 100000"]
  note near = vi_pass_near(1-4) vi_pass_near(5) [where epsilon = "1 / 100000"]
  note sweep = vi_sweep_in_place [OF shape3_transitions shape3_rewards zero(1,2),
      where A = exact and gamma = "99 / 100" and epsilon = "1 / 100000"]
  note pass = vi_sweep_in_place [OF shape3_transitions shape3_rewards near(1,2),
      where A = exact and gamma = "99 / 100" and epsilon = "1 / 100000"]
  have swept: "value_of (vi_sweep exact transitions rewards (99 / 100) ?w) =
     [- (1 / 50), - (1 / 50), 199 / 250, 0, - (1 / 50), 0, 32027 / 62500, 0,
      - (1 / 50), - (1 / 50), 11995817 / 31250000, 726648383 / 3906250000]"
    by (simp only: vi_sweep_value [OF zero(1)] zero(4) vi_sweep_zero)
  have k: "4 < length states_to_update" and at: "states_to_update ! 4 = 6"
    by (simp_all add: states_to_update_eval)
  have mix: "map (\<lambda>s. if s \<in> set (take 4 states_to_update)
                then value_of (vi_sweep exact transitions rewards (99 / 100) ?w) ! s
                else value_of ?w ! s) [0..<num_states] =
       [- (1 / 50), - (1 / 50), 199 / 250, 0, - (1 / 50), 0, 0, 0, 0, 0, 0, 0]"
    unfolding swept zero(4) by (simp add: states_to_update_eval num_eval upt12)
  from sweep [THEN conjunct2, THEN conjunct1, rule_format, OF k]
  have six: "value_of (vi_sweep exact transitions rewards (99 / 100) ?w) ! 6 =
     np_max (q_sa exact transitions rewards (99 / 100)
       [- (1 / 50), - (1 / 50), 199 / 250, 0, - (1 / 50), 0, 0, 0, 0, 0, 0, 0] 6)"
    unfolding mix at .
  have old: "np_max (q_sa exact transitions rewards (99 / 100) (value_of ?w) 6) = - (1 / 50)"
    unfolding zero(4) by (rule backup_zero_6)
  have same_V: "V (?body ?n) = V ?n"
    by (rule vi_body_wf(1) [OF near(1)])
  have new_arr: "heap (?body ?n) ! V ?n =
     [221035711 / 250000000, 231263401 / 250000000, 961986271 / 1000000000, 0,
      53011310653 / 62500000000, 0, 44665173977 / 62500000000, 0,
      12630386837419 / 15625000000000, 1510405847685731 / 1953125000000000,
      718846727968283851 / 976562500000000000,
      62998360004406976249 / 122070312500000000000]"
    using near(5) unfolding value_of_def same_V .
  from pass [THEN conjunct2, THEN conjunct2, THEN conjunct2, THEN conjunct1]
  have old_arr: "heap (?body ?n) ! length (heap ?n) =
     [884143 / 1000000, 462527 / 500000, 480993 / 500000, 0, 848181 / 1000000, 0,
      714643 / 1000000, 0, 101043 / 125000, 773327 / 1000000, 736099 / 1000000, 258041 / 500000]"
    unfolding near(4) .
  from pass [THEN conjunct2, THEN conjunct2, THEN conjunct2, THEN conjunct2, rule_format, OF near(3)]
  have test: "converged (?body ?n) \<longleftrightarrow>
     sum_list (map (\<lambda>s. \<bar>[221035711 / 250000000, 231263401 / 250000000, 961986271 / 1000000000, 0,
      53011310653 / 62500000000, 0, 44665173977 / 62500000000, 0,
      12630386837419 / 15625000000000, 1510405847685731 / 1953125000000000,
      718846727968283851 / 976562500000000000,
      62998360004406976249 / 122070312500000000000] ! s -
      [884143 / 1000000, 462527 / 500000, 480993 / 500000, 0, 848181 / 1000000, 0,
      714643 / 1000000, 0, 101043 / 125000, 773327 / 1000000, 736099 / 1000000, 258041 / 500000] ! s\<bar>) [0..<num_states]) < (1 / 100000 :: real)"
    unfolding new_arr old_arr by (simp only: exact_simps)
  have conv: "converged (?body ?n)"
    unfolding test change_near by simp
  show ?thesis
    by (intro conjI shape3_transitions shape3_rewards zero(1,2) near(1,2,3) k at six backup_mixed_6
        old new_arr old_arr change_near conv)
qed

(*SPLIT*)
text \<open>
  The evaluation step of Policy Iteration does not depend on the array \<^verbatim>\<open>pi\<close> at all.
\<close>

lemma pi_evaluate_ignores_pi:
  "pi_evaluate A T R gamma policy (w\<lparr>pi_arr := p\<rparr>) state =
     (pi_evaluate A T R gamma policy w state)\<lparr>pi_arr := p\<rparr>"
  by (simp add: pi_evaluate_def Let_def)

text \<open>
  The first pass of the Policy Iteration loop on the notebook's tensors with gamma 0.99,
  \<^verbatim>\<open>V\<close> at 0.5 in the states to update, and \<^verbatim>\<open>policy\<close> the array that the Value
  Iteration section assigned, after the loop body has run for states 0, 1 and 2.
\<close>

lemma pi_sweep_three:
  "policy_sweep exact transitions rewards (99 / 100) [2, 2, 2, 0, 1, 0, 0, 0, 1, 0, 0, 0] [0, 1, 2]
     [1 / 2, 1 / 2, 1 / 2, 0, 1 / 2, 0, 1 / 2, 0, 1 / 2, 1 / 2, 1 / 2, 1 / 2] =
     [19 / 40, 19 / 40, 179 / 200, 0, 1 / 2, 0, 1 / 2, 0, 1 / 2, 1 / 2, 1 / 2, 1 / 2]"
  by (simp add: policy_sweep_def exact_simps transitions_eval rewards_eval)

lemma greedy_three:
  "greedy exact transitions
     [19 / 40, 19 / 40, 179 / 200, 0, 1 / 2, 0, 1 / 2, 0, 1 / 2, 1 / 2, 1 / 2, 1 / 2] =
     [3, 2, 2, 0, 3, 0, 1, 0, 0, 0, 0, 3]"
  by (simp add: greedy_def terminal_filled_eval np_argmax0_def np_argmax_def expected_value_def
      exact_simps transitions_eval upt12)

lemma pi_sweep_four:
  "policy_sweep exact transitions rewards (99 / 100) [2, 2, 2, 0, 1, 0, 0, 0, 1, 0, 0, 0] [4]
     [19 / 40, 19 / 40, 179 / 200, 0, 1 / 2, 0, 1 / 2, 0, 1 / 2, 1 / 2, 1 / 2, 1 / 2] ! 4 = 569 / 1250"
  by (simp add: policy_sweep_def exact_simps transitions_eval rewards_eval)

lemma expected_value_policy_4:
  "sum_list (map (\<lambda>s'. transitions ! 1 ! 4 ! s' *
      (rewards ! 1 ! 4 ! s' + 99 / 100 *
         [19 / 40, 19 / 40, 179 / 200, 0, 1 / 2, 0, 1 / 2, 0, 1 / 2, 1 / 2, 1 / 2, 1 / 2] ! s'))
      [0..<num_states]) = 569 / 1250"
  by (simp add: num_eval upt12 transitions_eval rewards_eval)

lemma expected_value_pi_4:
  "sum_list (map (\<lambda>s'. transitions ! 3 ! 4 ! s' *
      (rewards ! 3 ! 4 ! s' + 99 / 100 *
         [19 / 40, 19 / 40, 179 / 200, 0, 1 / 2, 0, 1 / 2, 0, 1 / 2, 1 / 2, 1 / 2, 1 / 2] ! s'))
      [0..<num_states]) = 19 / 40"
  by (simp add: num_eval upt12 transitions_eval rewards_eval)

text \<open>
  Claim C1 says that the evaluation update of a state uses the action that the policy
  array maintained by the loop, \<^verbatim>\<open>pi\<close>, assigns to it. The loop reads
  \<^verbatim>\<open>policy[state]\<close>, the array left by the Value Iteration section. Enter the loop with
  any array \<^verbatim>\<open>pi\<close>, with \<^verbatim>\<open>V\<close> at 0.5 in the states to update, gamma 0.99 and
  \<^verbatim>\<open>policy = [2, 2, 2, 0, 1, 0, 0, 0, 1, 0, 0, 0]\<close>. After the loop body has run for the
  first three states, 0, 1 and 2, the loop's own \<^verbatim>\<open>pi\<close> is
  \<^verbatim>\<open>[3, 2, 2, 0, 3, 0, 1, 0, 0, 0, 0, 3]\<close>. The next state is 4, where \<^verbatim>\<open>pi[4] = 3\<close> (D) and
  \<^verbatim>\<open>policy[4] = 1\<close> (U): the update writes 0.4552, the expected value of action U; the
  expected value of action \<^verbatim>\<open>pi[4]\<close>, which the claim prescribes, is 0.475.
\<close>

theorem pi_evaluation_reads_policy:
  "take 3 states_to_update = [0, 1, 2] \<and> states_to_update ! 3 = 4 \<and>
   value_of (fold (\<lambda>state w'. pi_step exact transitions rewards (99 / 100) [2, 2, 2, 0, 1, 0, 0, 0, 1, 0, 0, 0] w' state)
      (take 3 states_to_update) (pi_start (replicate num_states (1 / 2)) choice)) =
     [19 / 40, 19 / 40, 179 / 200, 0, 1 / 2, 0, 1 / 2, 0, 1 / 2, 1 / 2, 1 / 2, 1 / 2] \<and>
   pi_arr (fold (\<lambda>state w'. pi_step exact transitions rewards (99 / 100) [2, 2, 2, 0, 1, 0, 0, 0, 1, 0, 0, 0] w' state)
      (take 3 states_to_update) (pi_start (replicate num_states (1 / 2)) choice)) =
     [3, 2, 2, 0, 3, 0, 1, 0, 0, 0, 0, 3] \<and>
   [2, 2, 2, 0, 1, 0, 0, 0, 1, 0, 0, 0] ! 4 = (1::nat) \<and>
   value_of (pi_evaluate exact transitions rewards (99 / 100) [2, 2, 2, 0, 1, 0, 0, 0, 1, 0, 0, 0]
      (fold (\<lambda>state w'. pi_step exact transitions rewards (99 / 100) [2, 2, 2, 0, 1, 0, 0, 0, 1, 0, 0, 0] w' state)
         (take 3 states_to_update) (pi_start (replicate num_states (1 / 2)) choice)) 4) ! 4 =
     569 / 1250 \<and>
   sum_list (map (\<lambda>s'. transitions ! 1 ! 4 ! s' *
      (rewards ! 1 ! 4 ! s' + 99 / 100 *
         [19 / 40, 19 / 40, 179 / 200, 0, 1 / 2, 0, 1 / 2, 0, 1 / 2, 1 / 2, 1 / 2, 1 / 2] ! s'))
      [0..<num_states]) = 569 / 1250 \<and>
   sum_list (map (\<lambda>s'. transitions ! 3 ! 4 ! s' *
      (rewards ! 3 ! 4 ! s' + 99 / 100 *
         [19 / 40, 19 / 40, 179 / 200, 0, 1 / 2, 0, 1 / 2, 0, 1 / 2, 1 / 2, 1 / 2, 1 / 2] ! s'))
      [0..<num_states]) = 19 / 40"
proof -
  let ?w0 = "pi_start (replicate num_states (1 / 2)) choice"
  let ?w3 = "fold (\<lambda>state w'. pi_step exact transitions rewards (99 / 100) [2, 2, 2, 0, 1, 0, 0, 0, 1, 0, 0, 0] w' state)
      (take 3 states_to_update) ?w0"
  have three: "take 3 states_to_update = [0, 1, 2]" and four: "states_to_update ! 3 = 4"
    by (simp_all add: states_to_update_eval)
  have wf: "V ?w0 < length (heap ?w0)"
    by (simp add: pi_start_def)
  have val0: "value_of ?w0 = [1 / 2, 1 / 2, 1 / 2, 0, 1 / 2, 0, 1 / 2, 0, 1 / 2, 1 / 2, 1 / 2, 1 / 2]"
    by (simp add: pi_start_def value_of_def init_V_half)
  note F = pi_fold_facts [OF wf, where A = exact and T = transitions and R = rewards
      and gamma = "99 / 100" and policy = "[2, 2, 2, 0, 1, 0, 0, 0, 1, 0, 0, 0]"
      and sts = "take 3 states_to_update"]
  from F have "value_of ?w3 =
      policy_sweep exact transitions rewards (99 / 100) [2, 2, 2, 0, 1, 0, 0, 0, 1, 0, 0, 0] (take 3 states_to_update) (value_of ?w0)"
    by blast
  then have val3: "value_of ?w3 = [19 / 40, 19 / 40, 179 / 200, 0, 1 / 2, 0, 1 / 2, 0, 1 / 2, 1 / 2, 1 / 2, 1 / 2]"
    unfolding three val0 pi_sweep_three .
  from F have "pi_arr ?w3 =
      (if take 3 states_to_update = [] then pi_arr ?w0
       else greedy exact transitions
         (policy_sweep exact transitions rewards (99 / 100) [2, 2, 2, 0, 1, 0, 0, 0, 1, 0, 0, 0] (take 3 states_to_update) (value_of ?w0)))"
    by blast
  then have pi3: "pi_arr ?w3 = [3, 2, 2, 0, 3, 0, 1, 0, 0, 0, 0, 3]"
    unfolding three val0 pi_sweep_three greedy_three by simp
  from F have wf3: "V ?w0 < length (heap ?w3)" and V3: "V ?w3 = V ?w0"
    by blast+
  have "value_of (pi_evaluate exact transitions rewards (99 / 100) [2, 2, 2, 0, 1, 0, 0, 0, 1, 0, 0, 0] ?w3 4) =
      policy_sweep exact transitions rewards (99 / 100) [2, 2, 2, 0, 1, 0, 0, 0, 1, 0, 0, 0] [4] (value_of ?w3)"
    using wf3 V3 by (simp add: pi_evaluate_eq value_of_def)
  then have written: "value_of (pi_evaluate exact transitions rewards (99 / 100) [2, 2, 2, 0, 1, 0, 0, 0, 1, 0, 0, 0] ?w3 4) ! 4 = 569 / 1250"
    unfolding val3 by (simp only: pi_sweep_four)
  have pol4: "[2, 2, 2, 0, 1, 0, 0, 0, 1, 0, 0, 0] ! 4 = (1::nat)"
    by simp
  show ?thesis
    by (intro conjI three four val3 pi3 pol4 written expected_value_policy_4 expected_value_pi_4)
qed

end
